theory Spec2Isabelle
  imports Main "HOL-Library.Word"
begin

unbundle bit_operations_syntax

section \<open>JavaScript numbers\<close>

text \<open>
  The sources compute with JavaScript numbers, which are IEEE 754 binary64 values.
  A finite number is kept as sign, magnitude and binary exponent: \<open>Fin s m e\<close> stands for
  \<open>(-1)\<^sup>s * m * 2\<^sup>e\<close>, with \<open>m\<close> odd, or \<open>m = 0\<close> and \<open>e = 0\<close> for the two zeros. Every
  operation rounds its exact result to the nearest representable value, ties to even,
  with gradual underflow and overflow to infinity, so that equal numbers are equal terms.
\<close>

datatype jsnum = NaN | Inf bool | Fin bool nat int

fun bitlen :: "nat \<Rightarrow> nat" where
  "bitlen n = (if n = 0 then 0 else Suc (bitlen (n div 2)))"

declare bitlen.simps [simp del]

fun odd_part :: "nat \<Rightarrow> int \<Rightarrow> nat \<times> int" where
  "odd_part m e =
     (if m = 0 then (0, 0)
      else if even m then odd_part (m div 2) (e + 1)
      else (m, e))"

declare odd_part.simps [simp del]

definition floor_adjust :: "nat \<Rightarrow> nat \<Rightarrow> int \<Rightarrow> int" where
  "floor_adjust a b e0 = (if b * 2 ^ nat e0 \<le> a * 2 ^ nat (- e0) then e0 else e0 - 1)"

definition floor_log2 :: "nat \<Rightarrow> nat \<Rightarrow> int" where
  \<comment> \<open>the integer part of the binary logarithm of \<open>a / b\<close>, for positive \<open>a\<close> and \<open>b\<close>\<close>
  "floor_log2 a b = floor_adjust a b (int (bitlen a) - int (bitlen b))"

definition round_div :: "nat \<Rightarrow> nat \<Rightarrow> nat" where
  \<comment> \<open>the integer nearest to \<open>num / den\<close>, the even one of two\<close>
  "round_div num den =
     (if den < 2 * (num mod den) \<or> (2 * (num mod den) = den \<and> odd (num div den))
      then num div den + 1 else num div den)"

definition pack :: "bool \<Rightarrow> nat \<Rightarrow> int \<Rightarrow> jsnum" where
  \<comment> \<open>the number \<open>(-1)\<^sup>s * m * 2\<^sup>q\<close> for a significand of at most 53 bits: infinite from
      \<open>2\<^sup>1\<^sup>0\<^sup>2\<^sup>4\<close> on\<close>
  "pack s m q =
     (if 971 < q \<or> (q = 971 \<and> 2 ^ 53 \<le> m) then Inf s
      else (case odd_part m q of (m', e') \<Rightarrow> Fin s m' e'))"

definition round_at :: "bool \<Rightarrow> nat \<Rightarrow> nat \<Rightarrow> int \<Rightarrow> jsnum" where
  \<comment> \<open>\<open>a / b\<close> rounded to a multiple of \<open>2\<^sup>q\<close>\<close>
  "round_at s a b q = pack s (round_div (a * 2 ^ nat (- q)) (b * 2 ^ nat q)) q"

definition round_ratio :: "bool \<Rightarrow> nat \<Rightarrow> nat \<Rightarrow> jsnum" where
  \<comment> \<open>the binary64 value nearest to \<open>(-1)\<^sup>s * a / b\<close>, for positive \<open>b\<close>: 53 bits from the
      leading one, and no exponent below that of the subnormal numbers\<close>
  "round_ratio s a b =
     (if a = 0 then Fin s 0 0
      else round_at s a b (max (floor_log2 a b) (- 1022) - 52))"

definition sval :: "bool \<Rightarrow> nat \<Rightarrow> int \<Rightarrow> int \<Rightarrow> int" where
  \<comment> \<open>the finite number \<open>Fin s m e\<close> as a multiple of \<open>2\<^sup>b\<close>, for \<open>b \<le> e\<close>\<close>
  "sval s m e b = (if s then - int m else int m) * 2 ^ nat (e - b)"

definition of_scaled :: "int \<Rightarrow> int \<Rightarrow> bool \<Rightarrow> jsnum" where
  \<comment> \<open>the number nearest to \<open>i * 2\<^sup>b\<close>; an exact zero has the sign \<open>z\<close>\<close>
  "of_scaled i b z =
     (if i = 0 then Fin z 0 0
      else round_ratio (i < 0) (nat \<bar>i\<bar> * 2 ^ nat b) (2 ^ nat (- b)))"

fun js_neg :: "jsnum \<Rightarrow> jsnum" where
  "js_neg NaN = NaN"
| "js_neg (Inf s) = Inf (\<not> s)"
| "js_neg (Fin s m e) = Fin (\<not> s) m e"

fun js_add :: "jsnum \<Rightarrow> jsnum \<Rightarrow> jsnum" where
  "js_add NaN _ = NaN"
| "js_add _ NaN = NaN"
| "js_add (Inf s) (Inf t) = (if s = t then Inf s else NaN)"
| "js_add (Inf s) (Fin _ _ _) = Inf s"
| "js_add (Fin _ _ _) (Inf t) = Inf t"
| "js_add (Fin s m e) (Fin t n f) =
     of_scaled (sval s m e (min e f) + sval t n f (min e f)) (min e f) (s \<and> t)"

definition js_sub :: "jsnum \<Rightarrow> jsnum \<Rightarrow> jsnum" where
  "js_sub x y = js_add x (js_neg y)"

fun js_mul :: "jsnum \<Rightarrow> jsnum \<Rightarrow> jsnum" where
  "js_mul NaN _ = NaN"
| "js_mul _ NaN = NaN"
| "js_mul (Inf s) (Inf t) = Inf (s \<noteq> t)"
| "js_mul (Inf s) (Fin t n f) = (if n = 0 then NaN else Inf (s \<noteq> t))"
| "js_mul (Fin s m e) (Inf t) = (if m = 0 then NaN else Inf (s \<noteq> t))"
| "js_mul (Fin s m e) (Fin t n f) =
     round_ratio (s \<noteq> t) (m * n * 2 ^ nat (e + f)) (2 ^ nat (- (e + f)))"

fun js_div :: "jsnum \<Rightarrow> jsnum \<Rightarrow> jsnum" where
  "js_div NaN _ = NaN"
| "js_div _ NaN = NaN"
| "js_div (Inf s) (Inf t) = NaN"
| "js_div (Inf s) (Fin t n f) = Inf (s \<noteq> t)"
| "js_div (Fin s m e) (Inf t) = Fin (s \<noteq> t) 0 0"
| "js_div (Fin s m e) (Fin t n f) =
     (if n = 0 then (if m = 0 then NaN else Inf (s \<noteq> t))
      else round_ratio (s \<noteq> t) (m * 2 ^ nat (e - f)) (n * 2 ^ nat (f - e)))"

fun num_le :: "jsnum \<Rightarrow> jsnum \<Rightarrow> bool" where
  \<comment> \<open>\<open>x <= y\<close> on numbers: false as soon as one side is NaN\<close>
  "num_le NaN _ = False"
| "num_le _ NaN = False"
| "num_le (Inf s) (Inf t) = (s \<or> \<not> t)"
| "num_le (Inf s) (Fin _ _ _) = s"
| "num_le (Fin _ _ _) (Inf t) = (\<not> t)"
| "num_le (Fin s m e) (Fin t n f) = (sval s m e (min e f) \<le> sval t n f (min e f))"

fun num_lt :: "jsnum \<Rightarrow> jsnum \<Rightarrow> bool" where
  \<comment> \<open>\<open>x < y\<close> on numbers\<close>
  "num_lt NaN _ = False"
| "num_lt _ NaN = False"
| "num_lt (Inf s) (Inf t) = (s \<and> \<not> t)"
| "num_lt (Inf s) (Fin _ _ _) = s"
| "num_lt (Fin _ _ _) (Inf t) = (\<not> t)"
| "num_lt (Fin s m e) (Fin t n f) = (sval s m e (min e f) < sval t n f (min e f))"

fun is_zero :: "jsnum \<Rightarrow> bool" where
  \<comment> \<open>\<open>x === 0\<close>: both zeros are equal to 0\<close>
  "is_zero (Fin _ m _) = (m = 0)"
| "is_zero _ = False"

fun num_truthy :: "jsnum \<Rightarrow> bool" where
  "num_truthy NaN = False"
| "num_truthy (Inf _) = True"
| "num_truthy (Fin _ m _) = (m \<noteq> 0)"

definition of_nat_num :: "nat \<Rightarrow> jsnum" where
  \<comment> \<open>a numeric literal of the sources\<close>
  "of_nat_num n = round_ratio False n 1"

definition of_int_num :: "int \<Rightarrow> jsnum" where
  "of_int_num i = round_ratio (i < 0) (nat \<bar>i\<bar>) 1"

fun to_int32 :: "jsnum \<Rightarrow> 32 word" where
  \<comment> \<open>ToInt32: truncate towards zero, then reduce modulo \<open>2\<^sup>3\<^sup>2\<close>\<close>
  "to_int32 (Fin s m e) =
     (if s then word_of_int (- int ((m * 2 ^ nat e) div 2 ^ nat (- e)))
      else word_of_int (int ((m * 2 ^ nat e) div 2 ^ nat (- e))))"
| "to_int32 _ = 0"

definition js_bitand :: "jsnum \<Rightarrow> jsnum \<Rightarrow> jsnum" where
  \<comment> \<open>the operator \<open>&\<close> on numbers\<close>
  "js_bitand x y = of_int_num (sint (to_int32 x AND to_int32 y))"

section \<open>Strings\<close>

text \<open>
  A JavaScript string is modelled as the list of its code units, each below 256: the
  strings of Latin-1 text. Of these code units seven are white space or line terminators
  to \<open>trim\<close> and \<open>parseFloat\<close>: the five ASCII controls from 9 to 13, the space, and the
  no-break space 160. Strings with a code unit from 256 on are outside the model.
\<close>

definition is_digit :: "char \<Rightarrow> bool" where
  "is_digit c = (c \<in> set ''0123456789'')"

definition is_space :: "char \<Rightarrow> bool" where
  "is_space c = (of_char c \<in> {9, 10, 11, 12, 13, 32, 160 :: nat})"

definition digit_char :: "nat \<Rightarrow> char" where
  "digit_char d = ''0123456789'' ! d"

definition digit_val :: "char \<Rightarrow> nat" where
  "digit_val c = of_char c - 48"

definition digits_val :: "string \<Rightarrow> nat" where
  "digits_val ds = foldl (\<lambda>a c. 10 * a + digit_val c) 0 ds"

fun dec_digits :: "nat \<Rightarrow> string" where
  "dec_digits n = (if n = 0 then [] else dec_digits (n div 10) @ [digit_char (n mod 10)])"

declare dec_digits.simps [simp del]

definition nat_to_string :: "nat \<Rightarrow> string" where
  "nat_to_string n = (if n = 0 then ''0'' else dec_digits n)"

definition starts_with :: "string \<Rightarrow> string \<Rightarrow> bool" where
  \<comment> \<open>\<open>s.startsWith(p)\<close>\<close>
  "starts_with p s = (take (length p) s = p)"

definition trim_start :: "string \<Rightarrow> string" where
  "trim_start s = dropWhile is_space s"

definition trim :: "string \<Rightarrow> string" where
  "trim s = rev (dropWhile is_space (rev (dropWhile is_space s)))"

fun replace_first :: "string \<Rightarrow> string \<Rightarrow> string" where
  \<comment> \<open>\<open>s.replace(p, '')\<close> for a string pattern: the first occurrence is deleted\<close>
  "replace_first p [] = []"
| "replace_first p (c # cs) =
     (if starts_with p (c # cs) then drop (length p) (c # cs) else c # replace_first p cs)"

subsection \<open>Reading a number\<close>

text \<open>
  \<open>parseFloat\<close> and ToNumber read the decimal literals of the grammar StrDecimalLiteral:
  a sign, then \<open>Infinity\<close> or digits with an optional point and an optional exponent.
  The value is the literal's exact value, rounded once.
\<close>

definition exp_digits :: "bool \<Rightarrow> string \<Rightarrow> string \<Rightarrow> int \<times> string" where
  \<comment> \<open>the digits \<open>u\<close> of an exponent: without a digit there is no exponent part, and the text
      \<open>s\<close> that began with the exponent indicator is left as it is\<close>
  "exp_digits neg u s =
     (if takeWhile is_digit u = [] then (0, s)
      else (if neg then - int (digits_val (takeWhile is_digit u))
            else int (digits_val (takeWhile is_digit u)),
            dropWhile is_digit u))"

fun exp_sign :: "string \<Rightarrow> string \<Rightarrow> int \<times> string" where
  "exp_sign [] s = (0, s)"
| "exp_sign (d # u) s =
     (if d = CHR ''-'' then exp_digits True u s
      else if d = CHR ''+'' then exp_digits False u s
      else exp_digits False (d # u) s)"

fun parse_exp :: "string \<Rightarrow> int \<times> string" where
  \<comment> \<open>an optional ExponentPart: its value and the text after it\<close>
  "parse_exp [] = (0, [])"
| "parse_exp (c # t) =
     (if c = CHR ''e'' \<or> c = CHR ''E'' then exp_sign t (c # t) else (0, c # t))"

fun frac_part :: "string \<Rightarrow> string \<times> string" where
  \<comment> \<open>an optional point with the digits after it, and the text after them\<close>
  "frac_part [] = ([], [])"
| "frac_part (c # t) =
     (if c = CHR ''.'' then (takeWhile is_digit t, dropWhile is_digit t) else ([], c # t))"

fun unsigned_value :: "string \<Rightarrow> string \<times> string \<Rightarrow> (nat \<times> int \<times> string) option" where
  \<comment> \<open>a literal needs a digit before or after the point\<close>
  "unsigned_value ip (fp, r2) =
     (if ip = [] \<and> fp = [] then None
      else Some (digits_val (ip @ fp), fst (parse_exp r2) - int (length fp), snd (parse_exp r2)))"

definition parse_unsigned :: "string \<Rightarrow> (nat \<times> int \<times> string) option" where
  \<comment> \<open>the longest prefix that is an unsigned decimal literal: its digits as a number, its
      decimal exponent and the text after it\<close>
  "parse_unsigned s = unsigned_value (takeWhile is_digit s) (frac_part (dropWhile is_digit s))"

fun decimal_number :: "bool \<Rightarrow> (nat \<times> int \<times> string) option \<Rightarrow> (jsnum \<times> string) option" where
  "decimal_number neg None = None"
| "decimal_number neg (Some (m, x, r)) =
     Some (round_ratio neg (m * 10 ^ nat x) (10 ^ nat (- x)), r)"

definition decimal_value :: "bool \<Rightarrow> string \<Rightarrow> (jsnum \<times> string) option" where
  "decimal_value neg u =
     (if starts_with ''Infinity'' u then Some (Inf neg, drop 8 u)
      else decimal_number neg (parse_unsigned u))"

fun parse_decimal :: "string \<Rightarrow> (jsnum \<times> string) option" where
  \<comment> \<open>the longest prefix that is a StrDecimalLiteral: its value and the text after it\<close>
  "parse_decimal [] = decimal_value False []"
| "parse_decimal (c # t) =
     (if c = CHR ''-'' then decimal_value True t
      else if c = CHR ''+'' then decimal_value False t
      else decimal_value False (c # t))"

fun float_result :: "(jsnum \<times> string) option \<Rightarrow> jsnum" where
  "float_result None = NaN"
| "float_result (Some (n, _)) = n"

definition parse_float_string :: "string \<Rightarrow> jsnum" where
  \<comment> \<open>\<open>Number.parseFloat\<close> on a string\<close>
  "parse_float_string s = float_result (parse_decimal (trim_start s))"

definition radix_digit :: "char \<Rightarrow> nat" where
  \<comment> \<open>the value of a digit in a base up to 16; 16 for any other character\<close>
  "radix_digit c =
     (if 48 \<le> (of_char c :: nat) \<and> (of_char c :: nat) \<le> 57 then of_char c - 48
      else if 97 \<le> (of_char c :: nat) \<and> (of_char c :: nat) \<le> 102 then of_char c - 87
      else if 65 \<le> (of_char c :: nat) \<and> (of_char c :: nat) \<le> 70 then of_char c - 55
      else 16)"

definition parse_radix :: "nat \<Rightarrow> string \<Rightarrow> jsnum" where
  \<comment> \<open>the digits of a hexadecimal, octal or binary literal, after its prefix\<close>
  "parse_radix b ds =
     (if ds \<noteq> [] \<and> list_all (\<lambda>c. radix_digit c < b) ds
      then of_nat_num (foldl (\<lambda>a c. b * a + radix_digit c) 0 ds)
      else NaN)"

fun whole_number :: "(jsnum \<times> string) option \<Rightarrow> jsnum" where
  "whole_number (Some (n, [])) = n"
| "whole_number _ = NaN"

definition numeric_literal :: "string \<Rightarrow> jsnum" where
  "numeric_literal t =
     (if t = [] then Fin False 0 0
      else if starts_with ''0x'' t \<or> starts_with ''0X'' t then parse_radix 16 (drop 2 t)
      else if starts_with ''0o'' t \<or> starts_with ''0O'' t then parse_radix 8 (drop 2 t)
      else if starts_with ''0b'' t \<or> starts_with ''0B'' t then parse_radix 2 (drop 2 t)
      else whole_number (parse_decimal t))"

definition string_to_number :: "string \<Rightarrow> jsnum" where
  \<comment> \<open>ToNumber on a string: the whole trimmed text has to be a numeric literal\<close>
  "string_to_number s = numeric_literal (trim s)"

subsection \<open>Writing a number\<close>

text \<open>
  \<open>String(x)\<close> writes the shortest decimal that reads back as \<open>x\<close>, and of several the
  nearest to \<open>x\<close>: Number::toString of the language definition, with the choice that the
  engines make.
\<close>

function dec_shift :: "nat \<Rightarrow> nat \<Rightarrow> nat" where
  \<comment> \<open>how many times \<open>a\<close> is multiplied by ten before it reaches \<open>b\<close>\<close>
  "dec_shift a b = (if a = 0 \<or> b \<le> a then 0 else Suc (dec_shift (a * 10) b))"
  by pat_completeness auto
termination
  by (relation "measure (\<lambda>(a, b). b - a)") auto

declare dec_shift.simps [simp del]

definition dec_exponent :: "nat \<Rightarrow> nat \<Rightarrow> int" where
  \<comment> \<open>the \<open>n\<close> with \<open>10\<^sup>n\<^sup>-\<^sup>1 \<le> a / b < 10\<^sup>n\<close>, for positive \<open>a\<close> and \<open>b\<close>\<close>
  "dec_exponent a b =
     (if b \<le> a then int (length (dec_digits (a div b))) else 1 - int (dec_shift a b))"

definition reads_back :: "jsnum \<Rightarrow> nat \<Rightarrow> int \<Rightarrow> bool" where
  \<comment> \<open>whether the decimal \<open>s * 10\<^sup>p\<close> rounds to \<open>x\<close>\<close>
  "reads_back x s p = (round_ratio False (s * 10 ^ nat p) (10 ^ nat (- p)) = x)"

definition pick_digits :: "jsnum \<Rightarrow> nat \<Rightarrow> nat \<Rightarrow> int \<Rightarrow> (nat \<times> int) option" where
  \<comment> \<open>of the two multiples of \<open>10\<^sup>p\<close> around \<open>num / den * 10\<^sup>p\<close>, one that reads back as \<open>x\<close>:
      the nearer one if both do, the even one if they are as near\<close>
  "pick_digits x num den p =
     (if reads_back x (num div den) p \<and>
         (\<not> reads_back x (num div den + 1) p \<or> 2 * (num mod den) < den
          \<or> (2 * (num mod den) = den \<and> even (num div den)))
      then Some (num div den, p)
      else if reads_back x (num div den + 1) p then Some (num div den + 1, p)
      else None)"

function shortest :: "jsnum \<Rightarrow> nat \<Rightarrow> nat \<Rightarrow> int \<Rightarrow> nat \<Rightarrow> nat \<times> int" where
  \<comment> \<open>the digits and the exponent of the shortest decimal, of at least \<open>k\<close> digits, that
      reads back as \<open>x = a / b\<close>, where \<open>n = dec_exponent a b\<close>; seventeen digits always do\<close>
  "shortest x a b n k =
     (if 17 \<le> k
      then (round_div (a * 10 ^ nat (int k - n)) (b * 10 ^ nat (n - int k)), n - int k)
      else if pick_digits x (a * 10 ^ nat (int k - n)) (b * 10 ^ nat (n - int k)) (n - int k) = None
      then shortest x a b n (Suc k)
      else the (pick_digits x (a * 10 ^ nat (int k - n)) (b * 10 ^ nat (n - int k)) (n - int k)))"
  by pat_completeness auto
termination
  by (relation "measure (\<lambda>(x, a, b, n, k). 17 - k)") auto

declare shortest.simps [simp del]

function strip_zeros :: "nat \<Rightarrow> int \<Rightarrow> nat \<times> int" where
  \<comment> \<open>\<open>s * 10\<^sup>p\<close> with the trailing zeros of \<open>s\<close> moved into the exponent\<close>
  "strip_zeros s p =
     (if s \<noteq> 0 \<and> s mod 10 = 0 then strip_zeros (s div 10) (p + 1) else (s, p))"
  by pat_completeness auto
termination
  by (relation "measure (\<lambda>(s, p). s)") auto

declare strip_zeros.simps [simp del]

definition exponent_form :: "string \<Rightarrow> int \<Rightarrow> string" where
  "exponent_form ds e =
     (if length ds = 1 then ds else take 1 ds @ ''.'' @ drop 1 ds)
     @ ''e'' @ (if e < 0 then ''-'' else ''+'') @ nat_to_string (nat \<bar>e\<bar>)"

definition render_decimal :: "string \<Rightarrow> int \<Rightarrow> string" where
  \<comment> \<open>Number::toString for the digits \<open>ds\<close> and the decimal exponent \<open>n\<close>: the value is
      \<open>0.ds * 10\<^sup>n\<close>\<close>
  "render_decimal ds n =
     (if int (length ds) \<le> n \<and> n \<le> 21 then ds @ replicate (nat (n - int (length ds))) CHR ''0''
      else if 0 < n \<and> n \<le> 21 then take (nat n) ds @ ''.'' @ drop (nat n) ds
      else if - 6 < n \<and> n \<le> 0 then ''0.'' @ replicate (nat (- n)) CHR ''0'' @ ds
      else exponent_form ds (n - 1))"

fun render_digits :: "nat \<times> int \<Rightarrow> string" where
  "render_digits (d, p) = render_decimal (dec_digits d) (p + int (length (dec_digits d)))"

fun render_shortest :: "nat \<times> int \<Rightarrow> string" where
  "render_shortest (s, p) = render_digits (strip_zeros s p)"

definition positive_to_string :: "nat \<Rightarrow> int \<Rightarrow> nat \<Rightarrow> nat \<Rightarrow> string" where
  \<comment> \<open>the positive number \<open>Fin False m e\<close>, which is \<open>a / b\<close>\<close>
  "positive_to_string m e a b = render_shortest (shortest (Fin False m e) a b (dec_exponent a b) 1)"

fun num_to_string :: "jsnum \<Rightarrow> string" where
  \<comment> \<open>\<open>String(x)\<close> for a number\<close>
  "num_to_string NaN = ''NaN''"
| "num_to_string (Inf s) = (if s then ''-Infinity'' else ''Infinity'')"
| "num_to_string (Fin s m e) =
     (if m = 0 then ''0''
      else (if s then ''-'' else []) @ positive_to_string m e (m * 2 ^ nat e) (2 ^ nat (- e)))"

declare num_to_string.simps [simp del]

section \<open>Values and objects\<close>

text \<open>
  The values that style objects and themes hold. \<open>plain\<close> is the data that a plain object
  nests: primitives and plain objects, an object being the list of its own enumerable
  properties in their enumeration order, with distinct names, none of them \<open>toString\<close>, by
  which the conversion of the object to a string would go. A value \<open>jsval\<close> is a
  primitive; a plain object of such data; a function, of which the model keeps its own
  properties \<open>name\<close> and \<open>length\<close> and the text that \<open>String\<close> gives for it (its source);
  or an object that wraps a boolean, a number or a string, as \<open>new String(s)\<close> makes
  one and as the prototypes of these three kinds are. A function or a wrapper is a value
  of a style object or of the theme itself, never of an object nested deeper. Arrays and
  property names that are array indices, which JavaScript enumerates before the others,
  are outside the model.
\<close>

datatype plain =
    PUndefined
  | PNull
  | PBool bool
  | PNum jsnum
  | PStr string
  | PObj "(string \<times> plain) list"

datatype jsval =
    Undefined
  | Null
  | Bool bool
  | Num jsnum
  | Str string
  | Obj "(string \<times> plain) list"
  | Fun string nat string
  | BoolObj bool
  | NumObj jsnum
  | StrObj string

type_synonym props = "(string \<times> jsval) list"

fun embed :: "plain \<Rightarrow> jsval" where
  \<comment> \<open>a value nested in an object, as a value\<close>
  "embed PUndefined = Undefined"
| "embed PNull = Null"
| "embed (PBool b) = Bool b"
| "embed (PNum n) = Num n"
| "embed (PStr s) = Str s"
| "embed (PObj ps) = Obj ps"

fun truthy :: "jsval \<Rightarrow> bool" where
  "truthy Undefined = False"
| "truthy Null = False"
| "truthy (Bool b) = b"
| "truthy (Num n) = num_truthy n"
| "truthy (Str s) = (s \<noteq> [])"
| "truthy (Obj _) = True"
| "truthy (Fun _ _ _) = True"
| "truthy (BoolObj _) = True"
| "truthy (NumObj _) = True"
| "truthy (StrObj _) = True"

fun to_string :: "jsval \<Rightarrow> string" where
  \<comment> \<open>ToString, as \<open>String(v)\<close> and template literals apply it\<close>
  "to_string Undefined = ''undefined''"
| "to_string Null = ''null''"
| "to_string (Bool b) = (if b then ''true'' else ''false'')"
| "to_string (Num n) = num_to_string n"
| "to_string (Str s) = s"
| "to_string (Obj _) = ''[object Object]''"
| "to_string (Fun name arity source) = source"
| "to_string (BoolObj b) = (if b then ''true'' else ''false'')"
| "to_string (NumObj n) = num_to_string n"
| "to_string (StrObj s) = s"

fun to_number :: "jsval \<Rightarrow> jsnum" where
  \<comment> \<open>ToNumber; of a plain object and of a function, the number that its string writes,
      and of a wrapper, the number of what it wraps\<close>
  "to_number Undefined = NaN"
| "to_number Null = Fin False 0 0"
| "to_number (Bool b) = (if b then Fin False 1 0 else Fin False 0 0)"
| "to_number (Num n) = n"
| "to_number (Str s) = string_to_number s"
| "to_number (Obj _) = NaN"
| "to_number (Fun name arity source) = string_to_number source"
| "to_number (BoolObj b) = (if b then Fin False 1 0 else Fin False 0 0)"
| "to_number (NumObj n) = n"
| "to_number (StrObj s) = string_to_number s"

fun is_stringy :: "jsval \<Rightarrow> bool" where
  \<comment> \<open>whether ToPrimitive gives a string\<close>
  "is_stringy (Str _) = True"
| "is_stringy (Obj _) = True"
| "is_stringy (Fun _ _ _) = True"
| "is_stringy (StrObj _) = True"
| "is_stringy _ = False"

fun is_callable :: "jsval \<Rightarrow> bool" where
  "is_callable (Fun _ _ _) = True"
| "is_callable _ = False"

definition js_plus :: "jsval \<Rightarrow> jsval \<Rightarrow> jsval" where
  \<comment> \<open>the operator \<open>+\<close>: concatenation as soon as one side is a string\<close>
  "js_plus a b =
     (if is_stringy a \<or> is_stringy b then Str (to_string a @ to_string b)
      else Num (js_add (to_number a) (to_number b)))"

definition js_le :: "jsnum \<Rightarrow> jsval \<Rightarrow> bool" where
  \<comment> \<open>\<open>x <= v\<close> with a number on the left\<close>
  "js_le x v = num_le x (to_number v)"

definition js_gt :: "jsnum \<Rightarrow> jsval \<Rightarrow> bool" where
  \<comment> \<open>\<open>x > v\<close> with a number on the left\<close>
  "js_gt x v = num_lt (to_number v) x"

definition parse_float :: "jsval \<Rightarrow> jsnum" where
  \<comment> \<open>\<open>Number.parseFloat(v)\<close>\<close>
  "parse_float v = parse_float_string (to_string v)"

definition get :: "props \<Rightarrow> string \<Rightarrow> jsval" where
  \<comment> \<open>\<open>o[k]\<close> on a style object or a theme, for the names that the program reads there:
      a property the object has, and otherwise \<open>undefined\<close>, \<open>Object.prototype\<close> having no
      member called \<open>width\<close>, \<open>height\<close>, \<open>marginLeft\<close>, \<open>marginRight\<close>, \<open>marginTop\<close>,
      \<open>marginBottom\<close>, \<open>cursor\<close>, \<open>elevation\<close> or \<open>rem\<close>\<close>
  "get ps k = (case map_of ps k of None \<Rightarrow> Undefined | Some v \<Rightarrow> v)"

fun put :: "props \<Rightarrow> string \<Rightarrow> jsval \<Rightarrow> props" where
  \<comment> \<open>\<open>o[k] = v\<close>: an existing property keeps its place, a new one comes last\<close>
  "put [] k v = [(k, v)]"
| "put ((k', v') # ps) k v = (if k' = k then (k, v) # ps else (k', v') # put ps k v)"

definition del :: "props \<Rightarrow> string \<Rightarrow> props" where
  \<comment> \<open>\<open>delete o[k]\<close>\<close>
  "del ps k = filter (\<lambda>p. fst p \<noteq> k) ps"

record ScaledSize =
  width :: jsnum
  height :: jsnum

text \<open>
  A theme is an object with the own properties \<open>theme_props\<close>: the root metric \<open>rem\<close>, the
  mappings \<open>sizes\<close> and \<open>colors\<close>, the function \<open>elevation\<close> and whatever else the
  application puts in it. What that function returns for a level, the shadow properties,
  is the field \<open>elevation\<close>, which is \<open>None\<close> when the theme has no such function.
\<close>

record Theme =
  theme_props :: props
  elevation :: "(jsval \<Rightarrow> props) option"

section \<open>Errors\<close>

datatype error =
    ContractViolation jsval
  | MalformedLength string
  | UnknownUnit string string
  | UndefinedColorVariable string
  | UndefinedLengthVariable string
  | TypeError string

definition quoted :: "string \<Rightarrow> string" where
  "quoted s = [CHR 0x27] @ s @ [CHR 0x27]"

fun message :: "error \<Rightarrow> string" where
  \<comment> \<open>the message of the \<open>Error\<close> that is thrown\<close>
  "message (ContractViolation v) = ''expected '' @ to_string v @ '' to be a string''"
| "message (MalformedLength str) = ''length string '' @ quoted str @ '' contains no unit''"
| "message (UnknownUnit str unit) =
     ''cannot parse length string '' @ quoted str @ '', unknown unit '' @ quoted unit"
| "message (UndefinedColorVariable name) =
     ''the color variable '' @ quoted (''$'' @ name) @ '' has not been defined in the theme.''"
| "message (UndefinedLengthVariable name) =
     ''the variable '' @ quoted name @ '' has not been defined in the theme.''"
| "message (TypeError text) = text"

section \<open>The placeholder registry\<close>

text \<open>
  \<open>themeVariables\<close> and \<open>currentColorId\<close> are module state. \<open>hashGenerate\<close> is not part
  of the sources at hand: it is a parameter, the sequence of the strings that its
  successive calls return, and \<open>hashCalls\<close> counts the calls made so far. The counter
  \<open>currentColorId\<close> is a natural number: a JavaScript number counts exactly up to
  \<open>2\<^sup>5\<^sup>3\<close>, which no registry reaches.
\<close>

record Registry =
  currentColorId :: nat
  hexForVarName :: "string \<rightharpoonup> string"
  nameForHex :: "string \<rightharpoonup> string"
  hashCalls :: nat

definition initial_registry :: Registry where
  "initial_registry =
     \<lparr>currentColorId = 1, hexForVarName = Map.empty, nameForHex = Map.empty, hashCalls = 0\<rparr>"

fun hex_digits :: "nat \<Rightarrow> string" where
  "hex_digits n =
     (if n = 0 then [] else hex_digits (n div 16) @ [''0123456789abcdef'' ! (n mod 16)])"

declare hex_digits.simps [simp del]

definition to_hex :: "nat \<Rightarrow> string" where
  \<comment> \<open>\<open>n.toString(16)\<close>\<close>
  "to_hex n = (if n = 0 then ''0'' else hex_digits n)"

definition pad_start :: "nat \<Rightarrow> char \<Rightarrow> string \<Rightarrow> string" where
  \<comment> \<open>\<open>s.padStart(n, c)\<close>\<close>
  "pad_start n c s = replicate (n - length s) c @ s"

definition upper_char :: "char \<Rightarrow> char" where
  "upper_char c =
     (if 97 \<le> (of_char c :: nat) \<and> (of_char c :: nat) \<le> 122
      then char_of (of_char c - 32 :: nat) else c)"

definition to_upper :: "string \<Rightarrow> string" where
  \<comment> \<open>\<open>s.toUpperCase()\<close> on ASCII text, which the hexadecimal digits it is applied to are\<close>
  "to_upper s = map upper_char s"

definition color_hash :: "nat \<Rightarrow> string" where
  "color_hash n = ''#'' @ to_upper (pad_start 6 CHR ''0'' (to_hex n)) @ ''00''"

definition lookup_hex :: "Registry \<Rightarrow> string \<Rightarrow> string" where
  \<comment> \<open>\<open>hexForVarName.get(name)\<close>, as a template literal prints it\<close>
  "lookup_hex r variableName =
     (case hexForVarName r variableName of None \<Rightarrow> ''undefined'' | Some h \<Rightarrow> h)"

definition with_fallback :: "string option \<Rightarrow> string \<Rightarrow> string" where
  "with_fallback fallback h =
     (case fallback of
        None \<Rightarrow> h
      | Some f \<Rightarrow> if f \<noteq> [] then h @ '' '' @ h else h)"

definition resolverLengsVariables ::
  "(nat \<Rightarrow> string) \<Rightarrow> string \<Rightarrow> string option \<Rightarrow> Registry \<Rightarrow> string \<times> Registry" where
  "resolverLengsVariables hashGenerate variableName fallback r =
     (let r' =
        (if hexForVarName r variableName = None then
           (let hash = hashGenerate (hashCalls r)
            in r\<lparr>hashCalls := Suc (hashCalls r),
                 hexForVarName := (hexForVarName r)(variableName \<mapsto> hash),
                 nameForHex := (nameForHex r)(hash \<mapsto> drop 1 variableName)\<rparr>)
         else r)
      in (with_fallback fallback (lookup_hex r' variableName), r'))"

definition resolveColorVariablePlaceholder ::
  "string \<Rightarrow> string option \<Rightarrow> Registry \<Rightarrow> string \<times> Registry" where
  "resolveColorVariablePlaceholder variableName fallback r =
     (let r' =
        (if hexForVarName r variableName = None then
           (let hash = color_hash (currentColorId r)
            in r\<lparr>currentColorId := Suc (currentColorId r),
                 hexForVarName := (hexForVarName r)(variableName \<mapsto> hash),
                 nameForHex := (nameForHex r)(hash \<mapsto> drop 1 variableName)\<rparr>)
         else r)
      in (with_fallback fallback (lookup_hex r' variableName), r'))"

text \<open>
  A call of one of the two encoders, and the registry after a sequence of such calls.
\<close>

datatype call = ColorCall string "string option" | LengthCall string "string option"

fun perform :: "(nat \<Rightarrow> string) \<Rightarrow> call \<Rightarrow> Registry \<Rightarrow> string \<times> Registry" where
  "perform hashGenerate (ColorCall variableName fallback) r =
     resolveColorVariablePlaceholder variableName fallback r"
| "perform hashGenerate (LengthCall variableName fallback) r =
     resolverLengsVariables hashGenerate variableName fallback r"

fun run :: "(nat \<Rightarrow> string) \<Rightarrow> call list \<Rightarrow> Registry \<Rightarrow> Registry" where
  "run hashGenerate [] r = r"
| "run hashGenerate (c # cs) r = run hashGenerate cs (snd (perform hashGenerate c r))"

fun name_of :: "call \<Rightarrow> string" where
  "name_of (ColorCall variableName fallback) = variableName"
| "name_of (LengthCall variableName fallback) = variableName"

fun fallback_of :: "call \<Rightarrow> string option" where
  "fallback_of (ColorCall variableName fallback) = fallback"
| "fallback_of (LengthCall variableName fallback) = fallback"

definition has_fallback :: "call \<Rightarrow> bool" where
  \<comment> \<open>the test \<open>if (fallback)\<close> of the call\<close>
  "has_fallback c = (case fallback_of c of None \<Rightarrow> False | Some f \<Rightarrow> f \<noteq> [])"

fun is_color :: "call \<Rightarrow> bool" where
  "is_color (ColorCall variableName fallback) = True"
| "is_color (LengthCall variableName fallback) = False"

definition unique_tokens :: "(nat \<Rightarrow> string) \<Rightarrow> bool" where
  \<comment> \<open>Modelled from the spec: \<open>hashGenerate\<close>, which is not among the sources, produces a
      fresh unique string on each call\<close>
  "unique_tokens hashGenerate = inj hashGenerate"

definition fresh_tokens :: "(nat \<Rightarrow> string) \<Rightarrow> bool" where
  \<comment> \<open>the strings of the generator are unique and none of them is a color placeholder\<close>
  "fresh_tokens hashGenerate =
     (unique_tokens hashGenerate \<and> (\<forall>i n. hashGenerate i \<noteq> color_hash n))"

definition colliding_tokens :: "nat \<Rightarrow> string" where
  \<comment> \<open>a generator of unique strings that are color placeholders\<close>
  "colliding_tokens i = color_hash (Suc i)"

section \<open>The length unit converter\<close>

definition resolveLengthUnit :: "jsval \<Rightarrow> Theme \<Rightarrow> ScaledSize \<Rightarrow> error + jsval" where
  "resolveLengthUnit str theme windowDimensions =
     (if \<not> truthy str then Inr str
      else
        (case str of
           Num _ \<Rightarrow> Inr str
         | Str s \<Rightarrow>
             (let value = parse_float_string s
              in if is_zero value then Inr (Num (of_nat_num 0))
                 else
                   (let unit = replace_first (num_to_string value) (trim s)
                    in if unit = [] then Inl (MalformedLength s)
                       else if unit = ''rem'' then
                         (let r = js_mul value (to_number (get (theme_props theme) ''rem''))
                          in Inr (if num_truthy r then Num r else Num (of_nat_num 8)))
                       else if unit = ''px'' then Inr (Num value)
                       else if unit = ''%'' then Inr str
                       else if unit = ''vw'' then
                         Inr (Num (js_div (js_mul value (width windowDimensions)) (of_nat_num 100)))
                       else if unit = ''vh'' then
                         Inr (Num (js_div (js_mul value (height windowDimensions)) (of_nat_num 100)))
                       else Inl (UnknownUnit s unit)))
         | _ \<Rightarrow> Inl (ContractViolation str)))"

section \<open>The theme lookup\<close>

text \<open>
  \<open>JSON.stringify\<close> hands the replacer the theme itself first and then each of its
  properties in turn, every one that is a plain object followed by its own properties in
  the same way: \<open>visited\<close> lists what the replacer sees, in that order. A function among
  the properties of the theme, such as \<open>elevation\<close>, is handed over like any other value,
  and nothing below it. The replacer returns each value as it is, so the walk is over the
  theme as it stands. Before the replacer sees an object, \<open>JSON.stringify\<close> calls the
  method \<open>toJSON\<close> of that object if it has one; the walk is as described for a theme in
  which there is none to call.
\<close>

datatype holder = Whole | Part jsval

fun walk :: "plain \<Rightarrow> jsval list"
  and walk_props :: "(string \<times> plain) list \<Rightarrow> jsval list" where
  "walk (PObj ps) = Obj ps # walk_props ps"
| "walk PUndefined = [Undefined]"
| "walk PNull = [Null]"
| "walk (PBool b) = [Bool b]"
| "walk (PNum n) = [Num n]"
| "walk (PStr s) = [Str s]"
| "walk_props [] = []"
| "walk_props ((k, d) # ps) = walk d @ walk_props ps"

fun walk_value :: "jsval \<Rightarrow> jsval list" where
  "walk_value (Obj ps) = Obj ps # walk_props ps"
| "walk_value v = [v]"

definition visited :: "Theme \<Rightarrow> holder list" where
  \<comment> \<open>the theme itself, then the values in it\<close>
  "visited theme = Whole # map Part (concat (map (\<lambda>p. walk_value (snd p)) (theme_props theme)))"

text \<open>
  Reading a member \<open>v[k]\<close> under an arbitrary name finds a property of the value itself
  or, failing that, what the value inherits along its prototype chain. The prototypes
  belong to the engine, not to the program: \<open>inherited\<close>, a parameter, gives the member
  that a value has under a name beyond the own properties modelled here, \<open>undefined\<close>
  where there is none, and the error where reading it throws.
\<close>

definition string_index :: "string \<Rightarrow> string \<Rightarrow> nat option" where
  \<comment> \<open>the position that a property name denotes in a string, if it is an index of it\<close>
  "string_index s k =
     (case filter (\<lambda>i. nat_to_string i = k) [0..<length s] of [] \<Rightarrow> None | i # _ \<Rightarrow> Some i)"

definition string_member ::
  "(holder \<Rightarrow> string \<Rightarrow> error + jsval) \<Rightarrow> jsval \<Rightarrow> string \<Rightarrow> string \<Rightarrow> error + jsval" where
  \<comment> \<open>the member of a string \<open>s\<close>, or of the wrapper \<open>v\<close> of one\<close>
  "string_member inherited v s k =
     (if k = ''length'' then Inr (Num (of_nat_num (length s)))
      else (case string_index s k of
              Some i \<Rightarrow> Inr (Str [s ! i])
            | None \<Rightarrow> inherited (Part v) k))"

definition js_get ::
  "(holder \<Rightarrow> string \<Rightarrow> error + jsval) \<Rightarrow> jsval \<Rightarrow> string \<Rightarrow> error + jsval" where
  \<comment> \<open>\<open>v[k]\<close>\<close>
  "js_get inherited v k =
     (case v of
        Undefined \<Rightarrow>
          Inl (TypeError (''Cannot read properties of undefined (reading '' @ quoted k @ '')''))
      | Null \<Rightarrow> Inl (TypeError (''Cannot read properties of null (reading '' @ quoted k @ '')''))
      | Obj ps \<Rightarrow> (case map_of ps k of Some d \<Rightarrow> Inr (embed d) | None \<Rightarrow> inherited (Part v) k)
      | Str s \<Rightarrow> string_member inherited v s k
      | StrObj s \<Rightarrow> string_member inherited v s k
      | Fun name arity source \<Rightarrow>
          if k = ''name'' then Inr (Str name)
          else if k = ''length'' then Inr (Num (of_nat_num arity))
          else inherited (Part v) k
      | _ \<Rightarrow> inherited (Part v) k)"

definition member ::
  "(holder \<Rightarrow> string \<Rightarrow> error + jsval) \<Rightarrow> Theme \<Rightarrow> holder \<Rightarrow> string \<Rightarrow> error + jsval" where
  \<comment> \<open>\<open>nestedValue[k]\<close>\<close>
  "member inherited theme nestedValue k =
     (case nestedValue of
        Whole \<Rightarrow>
          (case map_of (theme_props theme) k of Some v \<Rightarrow> Inr v | None \<Rightarrow> inherited Whole k)
      | Part v \<Rightarrow> js_get inherited v k)"

fun holder_truthy :: "holder \<Rightarrow> bool" where
  "holder_truthy Whole = True"
| "holder_truthy (Part v) = truthy v"

definition replacer ::
  "(holder \<Rightarrow> string \<Rightarrow> error + jsval) \<Rightarrow> Theme \<Rightarrow> string \<Rightarrow> holder option \<Rightarrow> holder \<Rightarrow>
   error + holder option" where
  \<comment> \<open>the function handed to \<open>JSON.stringify\<close>, with the variable \<open>foundObj\<close>, in which
      \<open>None\<close> is \<open>undefined\<close>, passed in and out\<close>
  "replacer inherited entireObj keyToFind foundObj nestedValue =
     (if holder_truthy nestedValue then
        (case member inherited entireObj nestedValue keyToFind of
           Inl e \<Rightarrow> Inl e
         | Inr m \<Rightarrow> Inr (if truthy m then Some nestedValue else foundObj))
      else Inr foundObj)"

fun stringify ::
  "(holder \<Rightarrow> string \<Rightarrow> error + jsval) \<Rightarrow> Theme \<Rightarrow> string \<Rightarrow> holder list \<Rightarrow> holder option \<Rightarrow>
   error + holder option" where
  \<comment> \<open>the calls of the replacer, until one throws\<close>
  "stringify inherited entireObj keyToFind [] foundObj = Inr foundObj"
| "stringify inherited entireObj keyToFind (nestedValue # rest) foundObj =
     (case replacer inherited entireObj keyToFind foundObj nestedValue of
        Inl e \<Rightarrow> Inl e
      | Inr found \<Rightarrow> stringify inherited entireObj keyToFind rest found)"

definition findNestedObj ::
  "(holder \<Rightarrow> string \<Rightarrow> error + jsval) \<Rightarrow> Theme \<Rightarrow> string \<Rightarrow> error + holder option" where
  "findNestedObj inherited entireObj keyToFind =
     stringify inherited entireObj keyToFind (visited entireObj) None"

section \<open>The dimension formatter\<close>

definition formatValue :: "props \<Rightarrow> ScaledSize \<Rightarrow> string \<Rightarrow> jsval" where
  "formatValue style dimensions key =
     (let widthValue = parse_float (get style ''width'');
          heightValue = parse_float (get style ''height'');
          unitWidth = replace_first (num_to_string widthValue) (trim (to_string (get style ''width'')));
          unitHeight = replace_first (num_to_string heightValue) (trim (to_string (get style ''height'')));
          returnValueWidth = (if unitWidth = [] then ''px'' else unitWidth);
          returnValueHeight = (if unitHeight = [] then ''px'' else unitHeight);
          somaRightLeft = js_plus (get style ''marginLeft'') (get style ''marginRight'');
          somaTopBottom = js_plus (get style ''marginTop'') (get style ''marginBottom'')
      in if truthy (get style ''width'') \<and> key = ''width'' then
           (if js_le widthValue somaRightLeft
            then Str (num_to_string widthValue @ returnValueWidth)
            else Str (num_to_string
                        (js_sub widthValue
                           (js_div (js_mul (of_nat_num 100) (to_number somaRightLeft))
                              (width dimensions)))
                      @ returnValueWidth))
         else if truthy (get style ''height'') \<and> key = ''height'' then
           (if js_le heightValue somaTopBottom
            then Str (num_to_string heightValue @ returnValueWidth)
            else Str (num_to_string
                        (js_sub heightValue
                           (js_div (js_mul (of_nat_num 100) (to_number somaTopBottom))
                              (height dimensions)))
                      @ returnValueHeight))
         else Undefined)"

section \<open>The style resolver\<close>

text \<open>
  What \<open>resolveThemeVariables\<close> imports from modules that are not part of the sources at
  hand is a parameter: the two attribute sets, the expression evaluator \<open>convertValue\<close>
  and the platform test; and so is what the engine lets values inherit. \<open>'u\<close> is the type
  of the units configuration, which is only passed on to \<open>convertValue\<close>.
\<close>

record 'u Env =
  colorAttributes :: "string set"
  lengthAttributes :: "string set"
  convertValue :: "string \<Rightarrow> jsval \<Rightarrow> 'u \<Rightarrow> jsval"
  plattformIsWeb :: bool
  inherited :: "holder \<Rightarrow> string \<Rightarrow> error + jsval"

definition name_for :: "Registry \<Rightarrow> jsval \<Rightarrow> string option" where
  \<comment> \<open>\<open>nameForHex.get(v)\<close>: the keys of the map are strings\<close>
  "name_for reg v = (case v of Str s \<Rightarrow> nameForHex reg s | _ \<Rightarrow> None)"

definition expand_elevation :: "Theme \<Rightarrow> string \<Rightarrow> props \<Rightarrow> error + props" where
  \<comment> \<open>calling a truthy \<open>theme.elevation\<close> that is not a function throws\<close>
  "expand_elevation theme key styleObject =
     (if key = ''elevation'' \<and> truthy (get (theme_props theme) ''elevation'') then
        (case elevation theme of
           None \<Rightarrow> Inl (TypeError ''theme.elevation is not a function'')
         | Some f \<Rightarrow>
             if is_callable (get (theme_props theme) ''elevation'')
             then Inr (foldl (\<lambda>st p. put st (fst p) (snd p)) styleObject (f (get styleObject key)))
             else Inl (TypeError ''theme.elevation is not a function''))
      else Inr styleObject)"

definition filter_cursor :: "'u Env \<Rightarrow> string \<Rightarrow> props \<Rightarrow> props" where
  "filter_cursor env key styleObject =
     (if key = ''cursor'' \<and> \<not> plattformIsWeb env then del styleObject ''cursor'' else styleObject)"

definition resolve_color :: "'u Env \<Rightarrow> Registry \<Rightarrow> Theme \<Rightarrow> string \<Rightarrow> props \<Rightarrow> error + props" where
  "resolve_color env reg theme key styleObject =
     (if key \<in> colorAttributes env then
        (case name_for reg (get styleObject key) of
           None \<Rightarrow> Inr styleObject
         | Some nameVariables \<Rightarrow>
             if nameVariables = [] then Inr styleObject
             else
               (case findNestedObj (inherited env) theme nameVariables of
                  Inl e \<Rightarrow> Inl e
                | Inr None \<Rightarrow> Inl (UndefinedColorVariable nameVariables)
                | Inr (Some findSize) \<Rightarrow>
                    (case member (inherited env) theme findSize nameVariables of
                       Inl e \<Rightarrow> Inl e
                     | Inr m \<Rightarrow>
                         if truthy m then Inr (put styleObject key m)
                         else Inl (UndefinedColorVariable nameVariables))))
      else Inr styleObject)"

definition resolve_length_variable ::
  "'u Env \<Rightarrow> Registry \<Rightarrow> Theme \<Rightarrow> string \<Rightarrow> props \<Rightarrow> error + props" where
  \<comment> \<open>the placeholder of a length is looked up under the value followed by \<open>px\<close>\<close>
  "resolve_length_variable env reg theme key styleObject =
     (case name_for reg (Str (to_string (get styleObject key) @ ''px'')) of
        None \<Rightarrow> Inr styleObject
      | Some nameVariables \<Rightarrow>
          if nameVariables = [] then Inr styleObject
          else
            (case findNestedObj (inherited env) theme nameVariables of
               Inl e \<Rightarrow> Inl e
             | Inr None \<Rightarrow> Inl (UndefinedLengthVariable nameVariables)
             | Inr (Some findSize) \<Rightarrow>
                 (case member (inherited env) theme findSize nameVariables of
                    Inl e \<Rightarrow> Inl e
                  | Inr m \<Rightarrow>
                      if truthy m then Inr (put styleObject key m)
                      else Inl (UndefinedLengthVariable nameVariables))))"

definition convert_expression :: "'u Env \<Rightarrow> 'u \<Rightarrow> string \<Rightarrow> props \<Rightarrow> props" where
  \<comment> \<open>a value that begins with \<open>calc\<close>, \<open>max\<close> or \<open>min\<close> goes to \<open>convertValue\<close>\<close>
  "convert_expression env units key styleObject =
     (if starts_with ''calc'' (to_string (get styleObject key))
         \<or> starts_with ''max'' (to_string (get styleObject key))
         \<or> starts_with ''min'' (to_string (get styleObject key))
      then
        (if convertValue env key (get styleObject key) units \<noteq> Num NaN
         then put styleObject key (convertValue env key (get styleObject key) units)
         else styleObject)
      else styleObject)"

definition convert_length :: "Theme \<Rightarrow> ScaledSize \<Rightarrow> string \<Rightarrow> props \<Rightarrow> error + props" where
  "convert_length theme windowDimensions key styleObject =
     (case resolveLengthUnit (get styleObject key) theme windowDimensions of
        Inl e \<Rightarrow> Inl e
      | Inr v \<Rightarrow> Inr (put styleObject key v))"

definition resolve_length ::
  "'u Env \<Rightarrow> Registry \<Rightarrow> Theme \<Rightarrow> ScaledSize \<Rightarrow> 'u \<Rightarrow> string \<Rightarrow> props \<Rightarrow> error + props" where
  "resolve_length env reg theme windowDimensions units key styleObject =
     (if key \<in> lengthAttributes env then
        (case resolve_length_variable env reg theme key styleObject of
           Inl e \<Rightarrow> Inl e
         | Inr st \<Rightarrow>
             convert_length theme windowDimensions key (convert_expression env units key st))
      else Inr styleObject)"

definition resolve_key ::
  "'u Env \<Rightarrow> Registry \<Rightarrow> Theme \<Rightarrow> ScaledSize \<Rightarrow> 'u \<Rightarrow> string \<Rightarrow> props \<Rightarrow> error + props" where
  \<comment> \<open>the body of the loop over the properties\<close>
  "resolve_key env reg theme windowDimensions units key styleObject =
     (case expand_elevation theme key styleObject of
        Inl e \<Rightarrow> Inl e
      | Inr expanded \<Rightarrow>
          (case resolve_color env reg theme key (filter_cursor env key expanded) of
             Inl e \<Rightarrow> Inl e
           | Inr st \<Rightarrow> resolve_length env reg theme windowDimensions units key st))"

fun resolve_keys ::
  "'u Env \<Rightarrow> Registry \<Rightarrow> Theme \<Rightarrow> ScaledSize \<Rightarrow> 'u \<Rightarrow> string list \<Rightarrow> props \<Rightarrow> error + props" where
  \<comment> \<open>\<open>for (const key in styleObject)\<close>: the properties the object has when the loop starts,
      in their order; one that has been deleted by the time its turn comes is passed over,
      and one that the loop adds is not visited\<close>
  "resolve_keys env reg theme windowDimensions units [] styleObject = Inr styleObject"
| "resolve_keys env reg theme windowDimensions units (key # keys) styleObject =
     (if map_of styleObject key = None
      then resolve_keys env reg theme windowDimensions units keys styleObject
      else
        (case resolve_key env reg theme windowDimensions units key styleObject of
           Inl e \<Rightarrow> Inl e
         | Inr st \<Rightarrow> resolve_keys env reg theme windowDimensions units keys st))"

definition or_undefined :: "jsval \<Rightarrow> jsval" where
  \<comment> \<open>\<open>v || undefined\<close>\<close>
  "or_undefined v = (if truthy v then v else Undefined)"

definition margins_test :: "props \<Rightarrow> bool" where
  \<comment> \<open>\<open>marginLeft && marginRight & marginTop & marginBottom\<close>, as the \<open>if\<close> reads it:
      \<open>&\<close> binds tighter than \<open>&&\<close> and associates to the left\<close>
  "margins_test styleObject =
     (let marginLeft = or_undefined (get styleObject ''marginLeft'');
          marginRight = or_undefined (get styleObject ''marginRight'');
          marginTop = or_undefined (get styleObject ''marginTop'');
          marginBottom = or_undefined (get styleObject ''marginBottom'')
      in truthy marginLeft \<and>
         num_truthy
           (js_bitand (js_bitand (to_number marginRight) (to_number marginTop))
              (to_number marginBottom)))"

definition recompute :: "props \<Rightarrow> Theme \<Rightarrow> ScaledSize \<Rightarrow> error + props" where
  \<comment> \<open>the body of the final \<open>if\<close>\<close>
  "recompute styleObject theme windowDimensions =
     (let widthValue = formatValue styleObject windowDimensions ''width'';
          heightValue = formatValue styleObject windowDimensions ''height''
      in (case resolveLengthUnit widthValue theme windowDimensions of
            Inl e \<Rightarrow> Inl e
          | Inr w \<Rightarrow>
              (case resolveLengthUnit heightValue theme windowDimensions of
                 Inl e \<Rightarrow> Inl e
               | Inr h \<Rightarrow> Inr (put (put styleObject ''width'' w) ''height'' h))))"

definition resolveThemeVariables ::
  "'u Env \<Rightarrow> Registry \<Rightarrow> props \<Rightarrow> Theme \<Rightarrow> ScaledSize \<Rightarrow> 'u \<Rightarrow> error + props" where
  "resolveThemeVariables env reg styleObject theme windowDimensions units =
     (case resolve_keys env reg theme windowDimensions units (map fst styleObject) styleObject of
        Inl e \<Rightarrow> Inl e
      | Inr st \<Rightarrow>
          if margins_test st then recompute st theme windowDimensions else Inr st)"

section \<open>Notions of the statements\<close>

definition unit_of :: "string \<Rightarrow> string" where
  \<comment> \<open>\<open>str.trim().replace(String(Number.parseFloat(str)), '')\<close>, the unit that
      \<open>resolveLengthUnit\<close> computes\<close>
  "unit_of str = replace_first (num_to_string (parse_float_string str)) (trim str)"

definition unit_or_px :: "jsval \<Rightarrow> string" where
  \<comment> \<open>what \<open>formatValue\<close> takes for the unit of a width or height: what is left of its
      trimmed text without the first occurrence of the text of its magnitude, and \<open>px\<close>
      when nothing is left\<close>
  "unit_or_px v =
     (if replace_first (num_to_string (parse_float v)) (trim (to_string v)) = [] then ''px''
      else replace_first (num_to_string (parse_float v)) (trim (to_string v)))"

definition margin_missing :: "jsval \<Rightarrow> jsval \<Rightarrow> bool" where
  \<comment> \<open>of the two margins of an axis one is missing, and the other is missing too or is a
      number, a boolean or null\<close>
  "margin_missing a b =
     ((a = Undefined \<and> \<not> is_stringy b) \<or> (\<not> is_stringy a \<and> b = Undefined))"

definition magnitude_chars :: "char set" where
  \<comment> \<open>the characters of which the magnitude of a length is written\<close>
  "magnitude_chars = set ''0123456789.+-eE''"

definition known_units :: "string set" where
  "known_units = {''rem'', ''px'', ''%'', ''vw'', ''vh''}"

definition matches ::
  "(holder \<Rightarrow> string \<Rightarrow> error + jsval) \<Rightarrow> Theme \<Rightarrow> string \<Rightarrow> holder \<Rightarrow> bool" where
  \<comment> \<open>the value is truthy and has a truthy member of the name\<close>
  "matches inh theme k h =
     (holder_truthy h \<and> (case member inh theme h k of Inl e \<Rightarrow> False | Inr m \<Rightarrow> truthy m))"

definition matching ::
  "(holder \<Rightarrow> string \<Rightarrow> error + jsval) \<Rightarrow> Theme \<Rightarrow> string \<Rightarrow> holder list" where
  \<comment> \<open>the values of the walk that match, in the order of the walk\<close>
  "matching inh theme k = filter (matches inh theme k) (visited theme)"

definition reads ::
  "(holder \<Rightarrow> string \<Rightarrow> error + jsval) \<Rightarrow> Theme \<Rightarrow> string \<Rightarrow> holder \<Rightarrow> bool" where
  \<comment> \<open>the replacer's reading of the member does not throw\<close>
  "reads inh theme k h =
     (\<not> holder_truthy h \<or> (case member inh theme h k of Inl e \<Rightarrow> False | Inr m \<Rightarrow> True))"

definition readable ::
  "(holder \<Rightarrow> string \<Rightarrow> error + jsval) \<Rightarrow> Theme \<Rightarrow> string \<Rightarrow> bool" where
  \<comment> \<open>reading the member of the name throws on none of the values of the walk\<close>
  "readable inh theme k = list_all (reads inh theme k) (visited theme)"

fun is_object :: "holder \<Rightarrow> bool" where
  "is_object Whole = True"
| "is_object (Part (Obj ps)) = True"
| "is_object (Part (Fun name arity source)) = True"
| "is_object (Part (BoolObj b)) = True"
| "is_object (Part (NumObj n)) = True"
| "is_object (Part (StrObj s)) = True"
| "is_object (Part v) = False"

definition lacks_toJSON ::
  "(holder \<Rightarrow> string \<Rightarrow> error + jsval) \<Rightarrow> Theme \<Rightarrow> holder \<Rightarrow> bool" where
  "lacks_toJSON inh theme h =
     (\<not> is_object h \<or>
      (case member inh theme h ''toJSON'' of Inl e \<Rightarrow> False | Inr m \<Rightarrow> \<not> is_callable m))"

definition no_toJSON :: "(holder \<Rightarrow> string \<Rightarrow> error + jsval) \<Rightarrow> Theme \<Rightarrow> bool" where
  \<comment> \<open>neither the theme nor an object in it has a method \<open>toJSON\<close>\<close>
  "no_toJSON inh theme = list_all (lacks_toJSON inh theme) (visited theme)"

definition hex_value :: "string \<Rightarrow> nat" where
  \<comment> \<open>the number that a string of hexadecimal digits writes\<close>
  "hex_value s = foldl (\<lambda>a c. 16 * a + radix_digit c) 0 s"


definition registry_inv :: "(nat \<Rightarrow> string) \<Rightarrow> Registry \<Rightarrow> bool" where
  \<comment> \<open>the counter has started from 1, every placeholder in use came from it or from the
      generator, and no two names share one\<close>
  "registry_inv hashGenerate r =
     (0 < currentColorId r \<and>
      (\<forall>v h. hexForVarName r v = Some h \<longrightarrow>
         (\<exists>n. 0 < n \<and> n < currentColorId r \<and> h = color_hash n) \<or>
         (\<exists>i < hashCalls r. h = hashGenerate i)) \<and>
      (\<forall>v w h. hexForVarName r v = Some h \<and> hexForVarName r w = Some h \<longrightarrow> v = w))"

definition admissible :: "(nat \<Rightarrow> string) \<Rightarrow> call list \<Rightarrow> bool" where
  \<comment> \<open>the calls are all of the color encoder; or all of the generic one, with unique
      tokens; or of both, with unique tokens none of which is a color placeholder\<close>
  "admissible hashGenerate calls =
     (list_all is_color calls \<or>
      (unique_tokens hashGenerate \<and> list_all (\<lambda>c. \<not> is_color c) calls) \<or>
      fresh_tokens hashGenerate)"


section \<open>Example inputs\<close>

text \<open>
  The inputs at which the statements below are evaluated: a color set and a length set,
  an expression evaluator that always fails, a target that is not the web, a viewport of
  100 by 200 and a theme with a root metric of 8 whose mappings \<open>sizes\<close> and \<open>colors\<close>
  both have an entry \<open>a\<close>. What values inherit there is what the prototypes of
  ECMAScript 2024 with its Annex B hold for objects, strings, numbers, booleans and
  functions: the methods, each a native function with the text that V8 prints for it,
  the constructor, and the prototype itself under \<open>__proto__\<close>. A function of a theme is
  taken to be an arrow function or a method: it has no property \<open>prototype\<close>, and reading
  its \<open>caller\<close> or \<open>arguments\<close> throws.
\<close>

datatype kind = ObjectKind | StringKind | NumberKind | BooleanKind | FunctionKind

fun kind_of :: "holder \<Rightarrow> kind" where
  "kind_of Whole = ObjectKind"
| "kind_of (Part (Str s)) = StringKind"
| "kind_of (Part (StrObj s)) = StringKind"
| "kind_of (Part (Num n)) = NumberKind"
| "kind_of (Part (NumObj n)) = NumberKind"
| "kind_of (Part (Bool b)) = BooleanKind"
| "kind_of (Part (BoolObj b)) = BooleanKind"
| "kind_of (Part (Fun name arity source)) = FunctionKind"
| "kind_of (Part v) = ObjectKind"

definition native :: "string \<Rightarrow> nat \<Rightarrow> jsval" where
  "native name arity = Fun name arity (''function '' @ name @ ''() { [native code] }'')"

definition object_methods :: "(string \<times> nat) list" where
  "object_methods =
     [(''__defineGetter__'', 2), (''__defineSetter__'', 2), (''hasOwnProperty'', 1),
      (''__lookupGetter__'', 1), (''__lookupSetter__'', 1), (''isPrototypeOf'', 1),
      (''propertyIsEnumerable'', 1), (''toString'', 0), (''valueOf'', 0),
      (''toLocaleString'', 0)]"

definition string_methods :: "(string \<times> nat) list" where
  "string_methods =
     [(''anchor'', 1), (''at'', 1), (''big'', 0), (''blink'', 0), (''bold'', 0),
      (''charAt'', 1), (''charCodeAt'', 1), (''codePointAt'', 1), (''concat'', 1),
      (''endsWith'', 1), (''fontcolor'', 1), (''fontsize'', 1), (''fixed'', 0),
      (''includes'', 1), (''indexOf'', 1), (''isWellFormed'', 0), (''italics'', 0),
      (''lastIndexOf'', 1), (''link'', 1), (''localeCompare'', 1), (''match'', 1),
      (''matchAll'', 1), (''normalize'', 0), (''padEnd'', 1), (''padStart'', 1),
      (''repeat'', 1), (''replace'', 2), (''replaceAll'', 2), (''search'', 1),
      (''slice'', 2), (''small'', 0), (''split'', 2), (''strike'', 0), (''sub'', 0),
      (''substr'', 2), (''substring'', 2), (''sup'', 0), (''startsWith'', 1),
      (''toString'', 0), (''toWellFormed'', 0), (''trim'', 0), (''trimStart'', 0),
      (''trimEnd'', 0), (''toLocaleLowerCase'', 0), (''toLocaleUpperCase'', 0),
      (''toLowerCase'', 0), (''toUpperCase'', 0), (''valueOf'', 0)]"

definition number_methods :: "(string \<times> nat) list" where
  "number_methods =
     [(''toExponential'', 1), (''toFixed'', 1), (''toPrecision'', 1), (''toString'', 1),
      (''valueOf'', 0), (''toLocaleString'', 0)]"

definition boolean_methods :: "(string \<times> nat) list" where
  "boolean_methods = [(''toString'', 0), (''valueOf'', 0)]"

definition function_methods :: "(string \<times> nat) list" where
  "function_methods = [(''apply'', 2), (''bind'', 1), (''call'', 1), (''toString'', 0)]"

fun methods_of :: "kind \<Rightarrow> (string \<times> nat) list" where
  \<comment> \<open>the methods of the prototype of the kind, then those of \<open>Object.prototype\<close>\<close>
  "methods_of ObjectKind = object_methods"
| "methods_of StringKind = string_methods @ object_methods"
| "methods_of NumberKind = number_methods @ object_methods"
| "methods_of BooleanKind = boolean_methods @ object_methods"
| "methods_of FunctionKind = function_methods @ object_methods"

fun constructor_of :: "kind \<Rightarrow> string" where
  "constructor_of ObjectKind = ''Object''"
| "constructor_of StringKind = ''String''"
| "constructor_of NumberKind = ''Number''"
| "constructor_of BooleanKind = ''Boolean''"
| "constructor_of FunctionKind = ''Function''"

fun prototype_of :: "kind \<Rightarrow> jsval" where
  \<comment> \<open>the prototypes, as far as the program can tell them apart: truthy objects with the
      string and the number of an empty object, of the function without a name, of
      \<open>false\<close>, of 0 and of the empty string\<close>
  "prototype_of ObjectKind = Obj []"
| "prototype_of FunctionKind = native [] 0"
| "prototype_of BooleanKind = BoolObj False"
| "prototype_of NumberKind = NumObj (of_nat_num 0)"
| "prototype_of StringKind = StrObj []"

definition restricted :: error where
  "restricted =
     TypeError
       (quoted ''caller'' @ '', '' @ quoted ''callee'' @ '', and '' @ quoted ''arguments''
        @ '' properties may not be accessed on strict mode functions or the arguments objects for calls to them'')"

definition standard_member :: "kind \<Rightarrow> string \<Rightarrow> error + jsval" where
  \<comment> \<open>\<open>trimLeft\<close> and \<open>trimRight\<close> are the functions \<open>trimStart\<close> and \<open>trimEnd\<close>\<close>
  "standard_member kd k =
     (if k = ''constructor'' then Inr (native (constructor_of kd) 1)
      else if k = ''__proto__'' then Inr (prototype_of kd)
      else if kd = FunctionKind \<and> (k = ''caller'' \<or> k = ''arguments'') then Inl restricted
      else if kd = StringKind \<and> k = ''trimLeft'' then Inr (native ''trimStart'' 0)
      else if kd = StringKind \<and> k = ''trimRight'' then Inr (native ''trimEnd'' 0)
      else (case map_of (methods_of kd) k of
              Some arity \<Rightarrow> Inr (native k arity)
            | None \<Rightarrow> Inr Undefined))"

definition standard_inherited :: "holder \<Rightarrow> string \<Rightarrow> error + jsval" where
  "standard_inherited h k = standard_member (kind_of h) k"

definition example_env :: "unit Env" where
  "example_env =
     \<lparr>colorAttributes = {''color'', ''shadowColor''},
      lengthAttributes =
        {''width'', ''height'', ''marginLeft'', ''marginRight'', ''marginTop'', ''marginBottom''},
      convertValue = (\<lambda>key v units. Num NaN),
      plattformIsWeb = False,
      inherited = standard_inherited\<rparr>"

definition example_dims :: ScaledSize where
  "example_dims = \<lparr>width = of_nat_num 100, height = of_nat_num 200\<rparr>"

definition example_theme :: Theme where
  "example_theme =
     \<lparr>theme_props =
        [(''rem'', Num (of_nat_num 8)),
         (''sizes'', Obj [(''a'', PStr ''1px'')]),
         (''colors'', Obj [(''a'', PStr ''red'')])],
      elevation = None\<rparr>"

definition shadow_theme :: Theme where
  \<comment> \<open>the same theme with a function \<open>elevation\<close> that sets the color of the shadow\<close>
  "shadow_theme =
     \<lparr>theme_props =
        theme_props example_theme @ [(''elevation'', Fun ''elevation'' 1 ''level => shadow'')],
      elevation = Some (\<lambda>level. [(''shadowColor'', Str ''black'')])\<rparr>"

definition registry_of :: "string \<Rightarrow> Registry" where
  \<comment> \<open>the registry after the first color placeholder has been given to a variable\<close>
  "registry_of variableName =
     snd (resolveColorVariablePlaceholder variableName None initial_registry)"

section \<open>Evaluation\<close>

text \<open>
  The rules by which the simplifier computes with numbers and strings, and the values of
  the literals that the examples below use.
\<close>

lemmas num_eval = round_ratio_def round_at_def pack_def round_div_def floor_log2_def
  floor_adjust_def bitlen.simps odd_part.simps sval_def of_scaled_def of_nat_num_def
  of_int_num_def js_sub_def

lemmas parse_eval = parse_float_string_def decimal_value_def parse_unsigned_def exp_digits_def
  trim_start_def trim_def is_space_def is_digit_def starts_with_def digits_val_def digit_val_def

lemmas print_eval = num_to_string.simps positive_to_string_def shortest.simps pick_digits_def
  reads_back_def strip_zeros.simps dec_exponent_def dec_shift.simps dec_digits.simps
  render_decimal_def exponent_form_def nat_to_string_def digit_char_def

lemma parse_10xy: "parse_float_string ''10xy'' = Fin False 5 1"
  by (simp add: parse_eval num_eval)

lemma string_of_10: "num_to_string (Fin False 5 1) = ''10''"
  by (simp add: print_eval num_eval)

lemma unit_of_10xy: "unit_of ''10xy'' = ''xy''"
  by (simp add: unit_of_def parse_10xy string_of_10 trim_def is_space_def starts_with_def)

lemma parse_50px: "parse_float_string ''50px'' = Fin False 25 1"
  by (simp add: parse_eval num_eval)

lemma parse_10vh: "parse_float_string ''10vh'' = Fin False 5 1"
  by (simp add: parse_eval num_eval)

lemma parse_2rem: "parse_float_string ''2rem'' = Fin False (Suc 0) 1"
  by (simp add: parse_eval num_eval)

lemma parse_undefined: "parse_float_string ''undefined'' = NaN"
  by (simp add: parse_eval)

lemma string_of_50: "num_to_string (Fin False 25 1) = ''50''"
  by (simp add: print_eval num_eval)

lemma string_of_30: "num_to_string (Fin False 15 1) = ''30''"
  by (simp add: print_eval num_eval)

lemma string_of_2: "num_to_string (Fin False (Suc 0) 1) = ''2''"
  by (simp add: print_eval num_eval)

lemma string_of_NaN: "num_to_string NaN = ''NaN''"
  by (simp add: num_to_string.simps)

lemma unit_or_px_50px: "unit_or_px (Str ''50px'') = ''px''"
  by (simp add: unit_or_px_def parse_float_def parse_50px string_of_50 trim_def is_space_def
      starts_with_def)

lemma unit_or_px_10vh: "unit_or_px (Str ''10vh'') = ''vh''"
  by (simp add: unit_or_px_def parse_float_def parse_10vh string_of_10 trim_def is_space_def
      starts_with_def)

lemma unit_or_px_undefined: "unit_or_px Undefined = ''undefined''"
  by (simp add: unit_or_px_def parse_float_def parse_undefined string_of_NaN trim_def is_space_def
      starts_with_def)

lemma unit_of_2rem: "unit_of ''2rem'' = ''rem''"
  by (simp add: unit_of_def parse_2rem string_of_2 trim_def is_space_def starts_with_def)

lemma parse_plus5px: "parse_float_string ''+5px'' = Fin False 5 0"
  by (simp add: parse_eval num_eval)

lemma string_of_5: "num_to_string (Fin False 5 0) = ''5''"
  by (simp add: print_eval num_eval)

lemma unit_of_plus5px: "unit_of ''+5px'' = ''+px''"
  by (simp add: unit_of_def parse_plus5px string_of_5 trim_def is_space_def starts_with_def)

lemma parse_1_50px: "parse_float_string ''1.50px'' = Fin False 3 (- 1)"
  by (simp add: parse_eval num_eval)

lemma string_of_1_5: "num_to_string (Fin False 3 (- 1)) = ''1.5''"
  by (simp add: print_eval num_eval)

lemma unit_of_1_50px: "unit_of ''1.50px'' = ''0px''"
  by (simp add: unit_of_def parse_1_50px string_of_1_5 trim_def is_space_def starts_with_def)

section \<open>The length unit converter: passing through and failing\<close>

lemma resolveLengthUnit_falsy: "\<not> truthy v \<Longrightarrow> resolveLengthUnit v theme wd = Inr v"
  by (simp add: resolveLengthUnit_def)

lemma resolveLengthUnit_Num: "resolveLengthUnit (Num n) theme wd = Inr (Num n)"
  by (simp add: resolveLengthUnit_def)

lemma resolveLengthUnit_Str:
  "s \<noteq> [] \<Longrightarrow> resolveLengthUnit (Str s) theme wd =
     (if is_zero (parse_float_string s) then Inr (Num (of_nat_num 0))
      else if unit_of s = [] then Inl (MalformedLength s)
      else if unit_of s = ''rem'' then
        Inr (if num_truthy (js_mul (parse_float_string s) (to_number (get (theme_props theme) ''rem'')))
             then Num (js_mul (parse_float_string s) (to_number (get (theme_props theme) ''rem'')))
             else Num (of_nat_num 8))
      else if unit_of s = ''px'' then Inr (Num (parse_float_string s))
      else if unit_of s = ''%'' then Inr (Str s)
      else if unit_of s = ''vw'' then
        Inr (Num (js_div (js_mul (parse_float_string s) (width wd)) (of_nat_num 100)))
      else if unit_of s = ''vh'' then
        Inr (Num (js_div (js_mul (parse_float_string s) (height wd)) (of_nat_num 100)))
      else Inl (UnknownUnit s (unit_of s)))"
  by (simp add: resolveLengthUnit_def unit_of_def Let_def)

text \<open>
  C6. \<open>resolveLengthUnit\<close> returns a falsy value and a number as they are, and 0 for a
  string whose magnitude is zero, whatever follows it. It fails in three cases and in no
  other: with a contract violation on a truthy value that is neither a number nor a
  string; with a malformed length on a string of non-zero magnitude of which nothing is
  left once the magnitude's text is taken out; with an unknown unit, carrying the unit
  and the string, when what is left is none of \<open>rem\<close>, \<open>px\<close>, \<open>%\<close>, \<open>vw\<close> and \<open>vh\<close>.
\<close>

theorem resolveLengthUnit_fails_exactly:
  "(\<not> truthy v \<longrightarrow> resolveLengthUnit v theme wd = Inr v) \<and>
   resolveLengthUnit (Num n) theme wd = Inr (Num n) \<and>
   (s \<noteq> [] \<and> is_zero (parse_float_string s) \<longrightarrow>
      resolveLengthUnit (Str s) theme wd = Inr (Num (of_nat_num 0))) \<and>
   ((resolveLengthUnit v theme wd = Inl e) =
      ((truthy v \<and> (\<forall>n. v \<noteq> Num n) \<and> (\<forall>s. v \<noteq> Str s) \<and> e = ContractViolation v) \<or>
       (\<exists>s. v = Str s \<and> s \<noteq> [] \<and> \<not> is_zero (parse_float_string s) \<and> unit_of s = [] \<and>
            e = MalformedLength s) \<or>
       (\<exists>s. v = Str s \<and> s \<noteq> [] \<and> \<not> is_zero (parse_float_string s) \<and> unit_of s \<noteq> [] \<and>
            unit_of s \<notin> known_units \<and> e = UnknownUnit s (unit_of s)))) \<and>
   message (UnknownUnit s u) =
     ''cannot parse length string '' @ quoted s @ '', unknown unit '' @ quoted u"
proof (intro conjI)
  show "message (UnknownUnit s u) =
     ''cannot parse length string '' @ quoted s @ '', unknown unit '' @ quoted u"
    by simp
  show "\<not> truthy v \<longrightarrow> resolveLengthUnit v theme wd = Inr v"
    by (simp add: resolveLengthUnit_falsy)
  show "resolveLengthUnit (Num n) theme wd = Inr (Num n)"
    by (rule resolveLengthUnit_Num)
  show "s \<noteq> [] \<and> is_zero (parse_float_string s) \<longrightarrow>
      resolveLengthUnit (Str s) theme wd = Inr (Num (of_nat_num 0))"
    by (simp add: resolveLengthUnit_Str)
  show "(resolveLengthUnit v theme wd = Inl e) =
      ((truthy v \<and> (\<forall>n. v \<noteq> Num n) \<and> (\<forall>s. v \<noteq> Str s) \<and> e = ContractViolation v) \<or>
       (\<exists>s. v = Str s \<and> s \<noteq> [] \<and> \<not> is_zero (parse_float_string s) \<and> unit_of s = [] \<and>
            e = MalformedLength s) \<or>
       (\<exists>s. v = Str s \<and> s \<noteq> [] \<and> \<not> is_zero (parse_float_string s) \<and> unit_of s \<noteq> [] \<and>
            unit_of s \<notin> known_units \<and> e = UnknownUnit s (unit_of s)))"
  proof (cases v)
    case (Str s')
    show ?thesis
    proof (cases "s' = []")
      case True
      with Str show ?thesis by (simp add: resolveLengthUnit_def)
    next
      case False
      with Str show ?thesis
        by (auto simp: resolveLengthUnit_Str known_units_def)
    qed
  qed (auto simp: resolveLengthUnit_def)
qed

theorem resolveLengthUnit_fails_exactly_witness:
  "truthy (Str ''10xy'') \<and> \<not> is_zero (parse_float_string ''10xy'') \<and>
   unit_of ''10xy'' = ''xy'' \<and> ''xy'' \<notin> known_units \<and>
   resolveLengthUnit (Str ''10xy'') \<lparr>theme_props = [], elevation = None\<rparr>
     \<lparr>width = of_nat_num 100, height = of_nat_num 100\<rparr> = Inl (UnknownUnit ''10xy'' ''xy'')"
  using resolveLengthUnit_fails_exactly
    [where v = "Str ''10xy''" and e = "UnknownUnit ''10xy'' ''xy''"
       and theme = "\<lparr>theme_props = [], elevation = None\<rparr>"
       and wd = "\<lparr>width = of_nat_num 100, height = of_nat_num 100\<rparr>"]
  by (simp add: unit_of_10xy parse_10xy known_units_def)

section \<open>Properties of the dimension formatter\<close>

lemma num_lt_not_le: "num_lt y x \<Longrightarrow> \<not> num_le x y"
  by (cases x; cases y) (auto simp: min.commute)

lemma formatValue_width:
  "truthy (get style ''width'') \<Longrightarrow>
   formatValue style dims ''width'' =
     (if js_le (parse_float (get style ''width''))
           (js_plus (get style ''marginLeft'') (get style ''marginRight''))
      then Str (num_to_string (parse_float (get style ''width'')) @ unit_or_px (get style ''width''))
      else Str (num_to_string
                  (js_sub (parse_float (get style ''width''))
                     (js_div
                        (js_mul (of_nat_num 100)
                           (to_number (js_plus (get style ''marginLeft'') (get style ''marginRight''))))
                        (width dims)))
                @ unit_or_px (get style ''width'')))"
  by (simp add: formatValue_def unit_or_px_def Let_def)

lemma formatValue_height:
  "truthy (get style ''height'') \<Longrightarrow>
   formatValue style dims ''height'' =
     (if js_le (parse_float (get style ''height''))
           (js_plus (get style ''marginTop'') (get style ''marginBottom''))
      then Str (num_to_string (parse_float (get style ''height'')) @ unit_or_px (get style ''width''))
      else Str (num_to_string
                  (js_sub (parse_float (get style ''height''))
                     (js_div
                        (js_mul (of_nat_num 100)
                           (to_number (js_plus (get style ''marginTop'') (get style ''marginBottom''))))
                        (height dims)))
                @ unit_or_px (get style ''height'')))"
  by (simp add: formatValue_def unit_or_px_def Let_def)

lemma replace_first_prefix: "replace_first p (p @ U) = U"
proof (cases "p @ U")
  case Nil
  then show ?thesis by simp
next
  case (Cons c cs)
  have "starts_with p (p @ U)"
    by (simp add: starts_with_def)
  with Cons have "replace_first p (p @ U) = drop (length p) (p @ U)"
    by simp
  then show ?thesis by simp
qed

lemma parse_plus50px: "parse_float_string ''+50px'' = Fin False 25 1"
  by (simp add: parse_eval num_eval)

lemma unit_or_px_plus50px: "unit_or_px (Str ''+50px'') = ''+px''"
  by (simp add: unit_or_px_def parse_float_def parse_plus50px string_of_50 trim_def is_space_def
      starts_with_def)

text \<open>
  C8. When the width is truthy and its magnitude is greater than the sum of the left and
  right margins, \<open>formatValue\<close> returns for the width the magnitude less a hundred times
  the sum over the width of the viewport, followed by what is left of the trimmed text of
  the width once the first occurrence of the text of its magnitude is taken out, \<open>px\<close>
  when nothing is left. That is the unit of the width when its text is the canonical
  text of the magnitude followed by the unit: the width \<open>50px\<close> with margins 10 and 10 in
  a viewport 100 wide gives \<open>30px\<close>. A magnitude written otherwise leaves part of
  itself in front of the unit: the width \<open>+50px\<close> gives \<open>30+px\<close>.
\<close>

theorem formatValue_width_adjusted:
  "(truthy (get style ''width'') \<and>
    js_gt (parse_float (get style ''width''))
      (js_plus (get style ''marginLeft'') (get style ''marginRight'')) \<longrightarrow>
    formatValue style dims ''width'' =
      Str (num_to_string
             (js_sub (parse_float (get style ''width''))
                (js_div
                   (js_mul (of_nat_num 100)
                      (to_number (js_plus (get style ''marginLeft'') (get style ''marginRight''))))
                   (width dims)))
           @ unit_or_px (get style ''width''))) \<and>
   (trim (to_string (get style ''width'')) = num_to_string (parse_float (get style ''width'')) @ U \<longrightarrow>
    unit_or_px (get style ''width'') = (if U = [] then ''px'' else U))"
  by (simp add: formatValue_width js_le_def js_gt_def num_lt_not_le unit_or_px_def
      replace_first_prefix)

theorem formatValue_width_adjusted_witness:
  "truthy (get [(''width'', Str ''50px''), (''marginLeft'', Num (of_nat_num 10)),
                (''marginRight'', Num (of_nat_num 10))] ''width'') \<and>
   js_gt (parse_float (Str ''50px'')) (js_plus (Num (of_nat_num 10)) (Num (of_nat_num 10))) \<and>
   trim (to_string (Str ''50px'')) = num_to_string (parse_float (Str ''50px'')) @ ''px'' \<and>
   unit_or_px (Str ''50px'') = ''px'' \<and>
   formatValue [(''width'', Str ''50px''), (''marginLeft'', Num (of_nat_num 10)),
                (''marginRight'', Num (of_nat_num 10))]
     \<lparr>width = of_nat_num 100, height = of_nat_num 200\<rparr> ''width'' = Str ''30px''"
  using formatValue_width_adjusted
    [of "[(''width'', Str ''50px''), (''marginLeft'', Num (of_nat_num 10)),
          (''marginRight'', Num (of_nat_num 10))]"
        "\<lparr>width = of_nat_num 100, height = of_nat_num 200\<rparr>" "''px''"]
  by (simp add: get_def js_gt_def js_plus_def parse_float_def parse_50px unit_or_px_50px
      string_of_30 string_of_50 trim_def is_space_def num_eval)

theorem formatValue_width_magnitude_left_over:
  "truthy (get [(''width'', Str ''+50px''), (''marginLeft'', Num (of_nat_num 10)),
                (''marginRight'', Num (of_nat_num 10))] ''width'') \<and>
   js_gt (parse_float (Str ''+50px'')) (js_plus (Num (of_nat_num 10)) (Num (of_nat_num 10))) \<and>
   formatValue [(''width'', Str ''+50px''), (''marginLeft'', Num (of_nat_num 10)),
                (''marginRight'', Num (of_nat_num 10))]
     \<lparr>width = of_nat_num 100, height = of_nat_num 200\<rparr> ''width'' = Str ''30+px'' \<and>
   Str ''30+px'' \<noteq> Str ''30px''"
  by (simp add: formatValue_width get_def js_le_def js_gt_def js_plus_def parse_float_def
      parse_plus50px unit_or_px_plus50px string_of_30 num_eval)

text \<open>
  C2. A height whose magnitude is at most the sum of the top and bottom margins should
  come back with its own unit. In that branch the code appends the unit of the width:
  the height \<open>10vh\<close> with margins 6 and 6 comes back as \<open>10undefined\<close> in a style
  without a width, and as \<open>10px\<close> beside a width of \<open>50px\<close>.
\<close>

theorem formatValue_height_foreign_unit:
  "formatValue [(''height'', Str ''10vh''), (''marginTop'', Num (of_nat_num 6)),
                (''marginBottom'', Num (of_nat_num 6))]
     \<lparr>width = of_nat_num 100, height = of_nat_num 200\<rparr> ''height'' = Str ''10undefined'' \<and>
   formatValue [(''width'', Str ''50px''), (''height'', Str ''10vh''),
                (''marginTop'', Num (of_nat_num 6)), (''marginBottom'', Num (of_nat_num 6))]
     \<lparr>width = of_nat_num 100, height = of_nat_num 200\<rparr> ''height'' = Str ''10px'' \<and>
   unit_or_px (Str ''10vh'') = ''vh''"
  by (simp add: formatValue_height get_def js_le_def js_plus_def parse_float_def parse_10vh
      string_of_10 unit_or_px_undefined unit_or_px_50px unit_or_px_10vh num_eval)

lemma js_add_NaN_right: "js_add x NaN = NaN"
  by (cases x) simp_all

lemma js_mul_NaN_right: "js_mul x NaN = NaN"
  by (cases x) simp_all

lemma num_le_NaN_right: "\<not> num_le x NaN"
  by (cases x) simp_all

lemma js_plus_missing: "margin_missing a b \<Longrightarrow> js_plus a b = Num NaN"
  by (auto simp: margin_missing_def js_plus_def js_add_NaN_right)

lemma formatValue_width_NaN:
  "truthy (get style ''width'') \<Longrightarrow>
   js_plus (get style ''marginLeft'') (get style ''marginRight'') = Num NaN \<Longrightarrow>
   formatValue style dims ''width'' = Str (''NaN'' @ unit_or_px (get style ''width''))"
  by (simp add: formatValue_width js_le_def num_le_NaN_right js_mul_NaN_right js_sub_def
      js_add_NaN_right string_of_NaN)

lemma formatValue_height_NaN:
  "truthy (get style ''height'') \<Longrightarrow>
   js_plus (get style ''marginTop'') (get style ''marginBottom'') = Num NaN \<Longrightarrow>
   formatValue style dims ''height'' = Str (''NaN'' @ unit_or_px (get style ''height''))"
  by (simp add: formatValue_height js_le_def num_le_NaN_right js_mul_NaN_right js_sub_def
      js_add_NaN_right string_of_NaN)

text \<open>
  C4. \<open>formatValue\<close> adds the two margins of an axis as the style object has them. A
  margin that is missing is not taken as 0: with the other margin a number, a boolean,
  null or missing too, the sum is NaN, the comparison with the magnitude fails, and a
  truthy width or height comes back as \<open>NaN\<close> followed by its unit. For the width \<open>50px\<close>
  with a left margin of 10 and no right margin that is \<open>NaNpx\<close>, not \<open>40px\<close>.
\<close>

theorem formatValue_missing_margin:
  "(truthy (get style ''width'') \<and>
      margin_missing (get style ''marginLeft'') (get style ''marginRight'') \<longrightarrow>
    formatValue style dims ''width'' = Str (''NaN'' @ unit_or_px (get style ''width''))) \<and>
   (truthy (get style ''height'') \<and>
      margin_missing (get style ''marginTop'') (get style ''marginBottom'') \<longrightarrow>
    formatValue style dims ''height'' = Str (''NaN'' @ unit_or_px (get style ''height'')))"
  by (simp add: formatValue_width_NaN formatValue_height_NaN js_plus_missing)

theorem formatValue_missing_margin_witness:
  "truthy (get [(''width'', Str ''50px''), (''marginRight'', Num (of_nat_num 10))] ''width'') \<and>
   margin_missing (get [(''width'', Str ''50px''), (''marginRight'', Num (of_nat_num 10))] ''marginLeft'')
     (get [(''width'', Str ''50px''), (''marginRight'', Num (of_nat_num 10))] ''marginRight'') \<and>
   formatValue [(''width'', Str ''50px''), (''marginRight'', Num (of_nat_num 10))]
     \<lparr>width = of_nat_num 100, height = of_nat_num 200\<rparr> ''width'' = Str ''NaNpx''"
  using formatValue_missing_margin
    [of "[(''width'', Str ''50px''), (''marginRight'', Num (of_nat_num 10))]"
        "\<lparr>width = of_nat_num 100, height = of_nat_num 200\<rparr>"]
  by (simp add: get_def margin_missing_def unit_or_px_50px)

theorem formatValue_margin_not_defaulted:
  "formatValue [(''width'', Str ''50px''), (''marginLeft'', Num (of_nat_num 10))]
     \<lparr>width = of_nat_num 100, height = of_nat_num 200\<rparr> ''width'' = Str ''NaNpx'' \<and>
   Str ''NaNpx'' \<noteq> Str ''40px''"
  by (simp add: formatValue_def Let_def get_def js_le_def js_plus_def parse_float_def parse_50px
      string_of_50 string_of_NaN js_sub_def trim_def is_space_def starts_with_def num_eval)

section \<open>The length unit converter: units\<close>

text \<open>
  C3. The unit \<open>rem\<close> should multiply the magnitude by the root metric of the theme, 8
  standing in for a root metric that is zero. The code writes \<open>value * theme.rem || 8\<close>,
  in which the product is formed first: \<open>2rem\<close> is 20 under a root metric of 10, and
  under a root metric of 0 it is 8, not 16.
\<close>

theorem resolveLengthUnit_rem_zero_root:
  "resolveLengthUnit (Str ''2rem'')
     \<lparr>theme_props = [(''rem'', Num (of_nat_num 10))], elevation = None\<rparr>
     \<lparr>width = of_nat_num 100, height = of_nat_num 200\<rparr> = Inr (Num (of_nat_num 20)) \<and>
   resolveLengthUnit (Str ''2rem'')
     \<lparr>theme_props = [(''rem'', Num (of_nat_num 0))], elevation = None\<rparr>
     \<lparr>width = of_nat_num 100, height = of_nat_num 200\<rparr> = Inr (Num (of_nat_num 8)) \<and>
   of_nat_num 8 \<noteq> of_nat_num 16"
  by (simp add: resolveLengthUnit_Str unit_of_2rem parse_2rem get_def num_eval)

lemma replace_first_cases:
  "replace_first p t = t \<or> (\<exists>a b. t = a @ p @ b \<and> replace_first p t = a @ b)"
proof (induction t)
  case Nil
  show ?case by simp
next
  case (Cons c cs)
  show ?case
  proof (cases "starts_with p (c # cs)")
    case True
    then have "c # cs = [] @ p @ drop (length p) (c # cs)"
      by (metis append_Nil append_take_drop_id starts_with_def)
    moreover from True have "replace_first p (c # cs) = [] @ drop (length p) (c # cs)"
      by simp
    ultimately show ?thesis by blast
  next
    case False
    from Cons.IH show ?thesis
    proof
      assume "replace_first p cs = cs"
      with False show ?thesis by simp
    next
      assume "\<exists>a b. cs = a @ p @ b \<and> replace_first p cs = a @ b"
      then obtain a b where "cs = a @ p @ b" "replace_first p cs = a @ b" by blast
      with False have "c # cs = (c # a) @ p @ b \<and> replace_first p (c # cs) = (c # a) @ b"
        by simp
      then show ?thesis by blast
    qed
  qed
qed

lemma dec_digits_chars:
  assumes "\<And>d. d < 10 \<Longrightarrow> digit_char d \<in> A"
  shows "set (dec_digits n) \<subseteq> A"
proof (induction n rule: dec_digits.induct)
  case (1 n)
  show ?case
  proof (cases "n = 0")
    case True
    then show ?thesis by (simp add: dec_digits.simps)
  next
    case False
    have "digit_char (n mod 10) \<in> A" by (rule assms) simp
    with False 1 show ?thesis
      by (subst dec_digits.simps) simp
  qed
qed

lemma render_decimal_chars:
  assumes ds: "set ds \<subseteq> A"
    and lits: "CHR ''0'' \<in> A" "CHR ''.'' \<in> A" "CHR ''e'' \<in> A" "CHR ''+'' \<in> A" "CHR ''-'' \<in> A"
    and digits: "\<And>d. d < 10 \<Longrightarrow> digit_char d \<in> A"
  shows "set (render_decimal ds n) \<subseteq> A"
proof -
  have t: "set (take k ds) \<subseteq> A" for k
    using ds set_take_subset [of k ds] by blast
  have d: "set (drop k ds) \<subseteq> A" for k
    using ds set_drop_subset [of k ds] by blast
  have e: "set (nat_to_string k) \<subseteq> A" for k
    using dec_digits_chars [of A k] digits lits by (simp add: nat_to_string_def)
  have x: "set (exponent_form ds k) \<subseteq> A" for k
    using ds t [of 1] d [of 1] e [of "nat \<bar>k\<bar>"] lits by (simp add: exponent_form_def)
  show ?thesis
    using ds t [of "nat n"] d [of "nat n"] x [of "n - 1"] lits
    by (auto simp: render_decimal_def)
qed

lemma digit_char_not_initial: "d < 10 \<Longrightarrow> digit_char d \<notin> set ''rp%v''"
proof -
  assume "d < 10"
  then have "d \<in> {0, 1, 2, 3, 4, 5, 6, 7, 8, 9}" by auto
  then show ?thesis by (auto simp: digit_char_def)
qed

lemma num_to_string_chars: "set (num_to_string x) \<subseteq> - set ''rp%v''"
proof (cases x)
  case NaN
  then show ?thesis by (simp add: num_to_string.simps)
next
  case (Inf s)
  then show ?thesis by (simp add: num_to_string.simps)
next
  case (Fin s m e)
  obtain s' p where sh: "shortest (Fin False m e) (m * 2 ^ nat e) (2 ^ nat (- e))
      (dec_exponent (m * 2 ^ nat e) (2 ^ nat (- e))) 1 = (s', p)"
    by (cases "shortest (Fin False m e) (m * 2 ^ nat e) (2 ^ nat (- e))
      (dec_exponent (m * 2 ^ nat e) (2 ^ nat (- e))) 1")
  obtain d p' where st: "strip_zeros s' p = (d, p')"
    by (cases "strip_zeros s' p")
  have dg: "digit_char k \<in> - set ''rp%v''" if "k < 10" for k
    using digit_char_not_initial [OF that] by simp
  have r: "set (render_decimal (dec_digits d) (p' + int (length (dec_digits d)))) \<subseteq> - set ''rp%v''"
    by (rule render_decimal_chars) (use dg in \<open>simp_all add: dec_digits_chars\<close>)
  have "positive_to_string m e (m * 2 ^ nat e) (2 ^ nat (- e))
      = render_decimal (dec_digits d) (p' + int (length (dec_digits d)))"
    by (simp only: positive_to_string_def sh st render_shortest.simps render_digits.simps)
  with r have "set (positive_to_string m e (m * 2 ^ nat e) (2 ^ nat (- e))) \<subseteq> - set ''rp%v''"
    by simp
  with Fin show ?thesis
    by (auto simp: num_to_string.simps)
qed


lemma known_unit_initial: "U \<in> known_units \<Longrightarrow> U \<noteq> [] \<and> hd U \<in> set ''rp%v''"
  by (auto simp: known_units_def)

lemma magnitude_char_not_initial: "c \<in> magnitude_chars \<Longrightarrow> c \<notin> set ''rp%v''"
  by (auto simp: magnitude_chars_def)

lemma hd_magnitude_not_unit:
  "u \<noteq> [] \<Longrightarrow> hd u \<in> magnitude_chars \<Longrightarrow> u \<notin> known_units"
  using known_unit_initial [of u] magnitude_char_not_initial [of "hd u"] by blast

lemma unit_of_noncanonical:
  assumes t: "trim s = M @ U"
    and M: "M \<noteq> []" "set M \<subseteq> magnitude_chars"
    and U: "U \<in> known_units"
    and C: "num_to_string (parse_float_string s) \<noteq> M"
  shows "unit_of s \<noteq> [] \<and> hd (unit_of s) \<in> magnitude_chars"
proof -
  define c where "c = num_to_string (parse_float_string s)"
  have u: "unit_of s = replace_first c (M @ U)"
    by (simp add: unit_of_def c_def t)
  have hdM: "hd M \<in> magnitude_chars"
    using M by (cases M) auto
  from replace_first_cases [of c "M @ U"]
  show ?thesis
  proof
    assume "replace_first c (M @ U) = M @ U"
    with u M hdM show ?thesis by simp
  next
    assume "\<exists>a b. M @ U = a @ c @ b \<and> replace_first c (M @ U) = a @ b"
    then obtain a b where ab: "M @ U = a @ c @ b" and r: "unit_of s = a @ b"
      using u by auto
    show ?thesis
    proof (cases a)
      case (Cons x xs)
      with ab M have "x = hd M"
        by (cases M) auto
      with Cons r hdM show ?thesis by simp
    next
      case Nil
      with ab have "M @ U = c @ b" by simp
      then obtain us where "(M = c @ us \<and> us @ U = b) \<or> (M @ us = c \<and> U = us @ b)"
        by (auto simp: append_eq_append_conv2)
      then show ?thesis
      proof
        assume h: "M = c @ us \<and> us @ U = b"
        with C have "us \<noteq> []" by (auto simp: c_def)
        moreover from h M(2) have "set us \<subseteq> magnitude_chars" by auto
        ultimately have "hd us \<in> magnitude_chars \<and> us \<noteq> []"
          by (cases us) auto
        moreover from h Nil r have "unit_of s = us @ U" by simp
        ultimately show ?thesis by simp
      next
        assume h: "M @ us = c \<and> U = us @ b"
        with C have ne: "us \<noteq> []" by (auto simp: c_def)
        with h have "hd U = hd us" by (cases us) auto
        with known_unit_initial [OF U] have "hd us \<in> set ''rp%v''" by simp
        moreover from ne h have "hd us \<in> set c" by (cases us) auto
        ultimately have False
          using num_to_string_chars [of "parse_float_string s"] by (auto simp: c_def)
        then show ?thesis ..
      qed
    qed
  qed
qed

text \<open>
  C10. The unit is what is left of the trimmed string once the first occurrence of
  \<open>String(Number.parseFloat(str))\<close> is deleted. When a length of non-zero magnitude is
  written with a magnitude that is not that text, what is left begins with a character
  of the magnitude (a digit, a sign, the point or the exponent mark), is none of the five
  units, and the call fails with an unknown unit: \<open>1.50px\<close> leaves \<open>0px\<close>. What is left
  need not hold a digit: \<open>+5px\<close> leaves \<open>+px\<close>.
\<close>

theorem resolveLengthUnit_noncanonical_magnitude:
  assumes "trim s = M @ U"
    and "M \<noteq> []"
    and "set M \<subseteq> magnitude_chars"
    and "U \<in> known_units"
    and "\<not> is_zero (parse_float_string s)"
    and "num_to_string (parse_float_string s) \<noteq> M"
  shows "unit_of s = replace_first (num_to_string (parse_float_string s)) (trim s) \<and>
    unit_of s \<noteq> [] \<and> hd (unit_of s) \<in> magnitude_chars \<and> unit_of s \<notin> known_units \<and>
    resolveLengthUnit (Str s) theme wd = Inl (UnknownUnit s (unit_of s))"
proof -
  from assms have u: "unit_of s \<noteq> [] \<and> hd (unit_of s) \<in> magnitude_chars"
    by (intro unit_of_noncanonical)
  then have k: "unit_of s \<notin> known_units"
    by (simp add: hd_magnitude_not_unit)
  from assms(1,2) have "s \<noteq> []"
    by (auto simp: trim_def)
  with assms(5) u k have "resolveLengthUnit (Str s) theme wd = Inl (UnknownUnit s (unit_of s))"
    by (auto simp: resolveLengthUnit_Str known_units_def)
  with u k show ?thesis
    by (simp add: unit_of_def)
qed

theorem resolveLengthUnit_noncanonical_magnitude_witness:
  "trim ''1.50px'' = ''1.50'' @ ''px'' \<and> set ''1.50'' \<subseteq> magnitude_chars \<and>
   ''px'' \<in> known_units \<and> \<not> is_zero (parse_float_string ''1.50px'') \<and>
   num_to_string (parse_float_string ''1.50px'') = ''1.5'' \<and>
   unit_of ''1.50px'' = ''0px'' \<and>
   resolveLengthUnit (Str ''1.50px'') \<lparr>theme_props = [], elevation = None\<rparr>
     \<lparr>width = of_nat_num 100, height = of_nat_num 200\<rparr> = Inl (UnknownUnit ''1.50px'' ''0px'')"
  using resolveLengthUnit_noncanonical_magnitude
    [of "''1.50px''" "''1.50''" "''px''" "\<lparr>theme_props = [], elevation = None\<rparr>"
        "\<lparr>width = of_nat_num 100, height = of_nat_num 200\<rparr>"]
  by (simp add: trim_def is_space_def magnitude_chars_def known_units_def parse_1_50px
      string_of_1_5 unit_of_1_50px)

theorem resolveLengthUnit_sign_leaves_no_digit:
  "num_to_string (parse_float_string ''+5px'') = ''5'' \<and>
   unit_of ''+5px'' = ''+px'' \<and>
   filter is_digit ''+px'' = [] \<and>
   resolveLengthUnit (Str ''+5px'') \<lparr>theme_props = [], elevation = None\<rparr>
     \<lparr>width = of_nat_num 100, height = of_nat_num 200\<rparr> = Inl (UnknownUnit ''+5px'' ''+px'')"
  by (simp add: resolveLengthUnit_Str unit_of_plus5px parse_plus5px string_of_5 is_digit_def)

section \<open>The theme lookup: which value is found\<close>

lemma stringify_last:
  "list_all (reads inh theme k) hs \<Longrightarrow>
   stringify inh theme k hs found =
     Inr (if filter (matches inh theme k) hs = [] then found
          else Some (last (filter (matches inh theme k) hs)))"
proof (induction hs arbitrary: found)
  case Nil
  then show ?case by simp
next
  case (Cons h hs)
  from Cons.prems have r: "reads inh theme k h" and rs: "list_all (reads inh theme k) hs"
    by simp_all
  show ?case
  proof (cases "matches inh theme k h")
    case True
    then have "replacer inh theme k found h = Inr (Some h)"
      by (auto simp: matches_def replacer_def split: sum.splits)
    with True Cons.IH [OF rs, of "Some h"] show ?thesis by simp
  next
    case False
    with r have "replacer inh theme k found h = Inr found"
      by (auto simp: matches_def reads_def replacer_def split: sum.splits)
    with False Cons.IH [OF rs, of found] show ?thesis by simp
  qed
qed

lemma findNestedObj_matching:
  "readable inh theme k \<Longrightarrow>
   findNestedObj inh theme k =
     Inr (if matching inh theme k = [] then None else Some (last (matching inh theme k)))"
  by (simp add: findNestedObj_def matching_def readable_def stringify_last)

lemma last_filter: "filter P xs \<noteq> [] \<Longrightarrow> P (last (filter P xs))"
proof -
  assume "filter P xs \<noteq> []"
  then have "last (filter P xs) \<in> set (filter P xs)"
    by (rule last_in_set)
  then show ?thesis by simp
qed

lemma last_matching:
  "matching inh theme k \<noteq> [] \<Longrightarrow>
   \<exists>m. member inh theme (last (matching inh theme k)) k = Inr m \<and> truthy m"
proof -
  assume "matching inh theme k \<noteq> []"
  then have "matches inh theme k (last (matching inh theme k))"
    unfolding matching_def by (rule last_filter)
  then show ?thesis
    by (auto simp: matches_def split: sum.splits)
qed


lemma resolve_color_matched:
  assumes "key \<in> colorAttributes env"
    and "name_for reg (get st key) = Some n"
    and "n \<noteq> []"
    and "readable (inherited env) theme n"
    and "matching (inherited env) theme n \<noteq> []"
  shows "\<exists>m. member (inherited env) theme (last (matching (inherited env) theme n)) n = Inr m \<and>
     truthy m \<and> resolve_color env reg theme key st = Inr (put st key m)"
proof -
  from assms(5) obtain m where
    "member (inherited env) theme (last (matching (inherited env) theme n)) n = Inr m" "truthy m"
    using last_matching by blast
  with assms show ?thesis
    by (simp add: resolve_color_def findNestedObj_matching)
qed

lemma resolve_length_variable_matched:
  assumes "name_for reg (Str (to_string (get st key) @ ''px'')) = Some n"
    and "n \<noteq> []"
    and "readable (inherited env) theme n"
    and "matching (inherited env) theme n \<noteq> []"
  shows "\<exists>m. member (inherited env) theme (last (matching (inherited env) theme n)) n = Inr m \<and>
     truthy m \<and> resolve_length_variable env reg theme key st = Inr (put st key m)"
proof -
  from assms(4) obtain m where
    "member (inherited env) theme (last (matching (inherited env) theme n)) n = Inr m" "truthy m"
    using last_matching by blast
  with assms show ?thesis
    by (simp add: resolve_length_variable_def findNestedObj_matching)
qed

lemma to_hex_1: "to_hex (Suc 0) = ''1''"
  by (simp add: to_hex_def hex_digits.simps)

lemma pad_start_1: "pad_start 6 CHR ''0'' ''1'' = ''000001''"
  by (simp add: pad_start_def numeral_eq_Suc)

lemma color_hash_1: "color_hash (Suc 0) = ''#00000100''"
  by (simp add: color_hash_def to_hex_1 pad_start_1 to_upper_def upper_char_def)

lemma registry_of_name: "nameForHex (registry_of v) ''#00000100'' = Some (drop 1 v)"
  by (simp add: registry_of_def resolveColorVariablePlaceholder_def initial_registry_def
      color_hash_1 Let_def)

lemma registry_of_placeholder:
  "fst (resolveColorVariablePlaceholder v None initial_registry) = ''#00000100''"
  by (simp add: resolveColorVariablePlaceholder_def initial_registry_def lookup_hex_def
      with_fallback_def color_hash_1 Let_def)

lemma dec_digits_digits: "set (dec_digits n) \<subseteq> Collect is_digit"
proof (rule dec_digits_chars)
  fix d :: nat
  assume "d < 10"
  then have "d \<in> {0, 1, 2, 3, 4, 5, 6, 7, 8, 9}" by auto
  then show "digit_char d \<in> Collect is_digit"
    by (auto simp: digit_char_def is_digit_def)
qed

lemma nat_to_string_digits: "nat_to_string i \<noteq> [] \<and> set (nat_to_string i) \<subseteq> Collect is_digit"
proof (cases "i = 0")
  case True
  then show ?thesis by (simp add: nat_to_string_def is_digit_def)
next
  case False
  then have "dec_digits i \<noteq> []"
    by (subst dec_digits.simps) simp
  with False dec_digits_digits [of i] show ?thesis
    by (simp add: nat_to_string_def)
qed

lemma string_index_none:
  assumes "k = [] \<or> (\<exists>c \<in> set k. \<not> is_digit c)"
  shows "string_index s k = None"
proof -
  have "nat_to_string i \<noteq> k" for i
    using assms nat_to_string_digits [of i] by auto
  then have "filter (\<lambda>i. nat_to_string i = k) [0..<length s] = []"
    by simp
  then show ?thesis
    by (simp add: string_index_def)
qed

lemmas standard_eval = standard_member_def object_methods_def string_methods_def
  number_methods_def boolean_methods_def function_methods_def

lemma standard_inherited_a: "standard_inherited h ''a'' = Inr Undefined"
  unfolding standard_inherited_def by (cases "kind_of h") (simp_all add: standard_eval)


lemma standard_inherited_name: "standard_inherited h ''name'' = Inr Undefined"
  unfolding standard_inherited_def by (cases "kind_of h") (simp_all add: standard_eval)

lemma standard_inherited_toJSON: "standard_inherited h ''toJSON'' = Inr Undefined"
  unfolding standard_inherited_def by (cases "kind_of h") (simp_all add: standard_eval)

lemma example_theme_props:
  "theme_props example_theme =
     [(''rem'', Num (of_nat_num 8)),
      (''sizes'', Obj [(''a'', PStr ''1px'')]),
      (''colors'', Obj [(''a'', PStr ''red'')])]"
  by (simp add: example_theme_def)

lemma shadow_theme_props:
  "theme_props shadow_theme =
     [(''rem'', Num (of_nat_num 8)),
      (''sizes'', Obj [(''a'', PStr ''1px'')]),
      (''colors'', Obj [(''a'', PStr ''red'')]),
      (''elevation'', Fun ''elevation'' 1 ''level => shadow'')]"
  by (simp add: shadow_theme_def example_theme_def)

lemma visited_example:
  "visited example_theme =
     [Whole, Part (Num (of_nat_num 8)),
      Part (Obj [(''a'', PStr ''1px'')]), Part (Str ''1px''),
      Part (Obj [(''a'', PStr ''red'')]), Part (Str ''red'')]"
  by (simp add: visited_def example_theme_props)

lemma visited_shadow:
  "visited shadow_theme =
     [Whole, Part (Num (of_nat_num 8)),
      Part (Obj [(''a'', PStr ''1px'')]), Part (Str ''1px''),
      Part (Obj [(''a'', PStr ''red'')]), Part (Str ''red''),
      Part (Fun ''elevation'' 1 ''level => shadow'')]"
  by (simp add: visited_def shadow_theme_props)

lemmas lookup_eval = matches_def reads_def lacks_toJSON_def member_def js_get_def
  string_member_def string_index_none is_digit_def

lemma matching_example_a:
  "matching standard_inherited example_theme ''a'' =
     [Part (Obj [(''a'', PStr ''1px'')]), Part (Obj [(''a'', PStr ''red'')])]"
  by (simp add: matching_def visited_example lookup_eval example_theme_props standard_inherited_a)



lemma matching_shadow_name:
  "matching standard_inherited shadow_theme ''name'' =
     [Part (Fun ''elevation'' 1 ''level => shadow'')]"
  by (simp add: matching_def visited_shadow lookup_eval shadow_theme_props standard_inherited_name)

lemma readable_example_a: "readable standard_inherited example_theme ''a''"
  by (simp add: readable_def visited_example lookup_eval example_theme_props standard_inherited_a)



lemma readable_shadow_name: "readable standard_inherited shadow_theme ''name''"
  by (simp add: readable_def visited_shadow lookup_eval shadow_theme_props standard_inherited_name)



lemma no_toJSON_shadow: "no_toJSON standard_inherited shadow_theme"
  by (simp add: no_toJSON_def visited_shadow lookup_eval shadow_theme_props
      standard_inherited_toJSON)

lemmas resolver_eval = resolveThemeVariables_def resolve_key_def expand_elevation_def
  filter_cursor_def resolve_color_def resolve_length_def resolve_length_variable_def
  convert_expression_def convert_length_def name_for_def margins_test_def or_undefined_def
  get_def del_def Let_def example_env_def

lemma string_of_60: "num_to_string (Fin False 15 2) = ''60''"
  by (simp add: print_eval num_eval)

lemma string_of_1: "num_to_string (Fin False (Suc 0) 0) = ''1''"
  by (simp add: print_eval num_eval)

lemma string_of_4: "num_to_string (Fin False (Suc 0) 2) = ''4''"
  by (simp add: print_eval num_eval)


text \<open>
  C5. The value that takes the place of a registered placeholder, for a color property
  and for a length property alike, is the member read under the variable's name from
  what \<open>findNestedObj\<close> returns. The walk over the theme does not stop at the first value
  with such a member: every truthy value that it meets and that has a truthy member of
  the name, its own or an inherited one, replaces the one found before, be it the theme
  itself, an object in it, a string, a number, a boolean or a function. What is returned
  is the last of them in the order of the walk, in a theme without a method \<open>toJSON\<close> and
  for a name that every value lets be read. In a theme whose \<open>sizes\<close> and \<open>colors\<close> both
  have an entry \<open>a\<close>, the placeholder of \<open>$a\<close> becomes the entry of \<open>colors\<close>; beside a
  function \<open>elevation\<close>, the placeholder of \<open>$name\<close> becomes the name of that function.
\<close>

theorem substituted_value_from_last_match:
  assumes "no_toJSON (inherited env) theme"
    and "readable (inherited env) theme n"
  shows "findNestedObj (inherited env) theme n =
      Inr (if matching (inherited env) theme n = [] then None
           else Some (last (matching (inherited env) theme n))) \<and>
   (key \<in> colorAttributes env \<and> name_for reg (get st key) = Some n \<and> n \<noteq> [] \<and>
      matching (inherited env) theme n \<noteq> [] \<longrightarrow>
    (\<exists>m. member (inherited env) theme (last (matching (inherited env) theme n)) n = Inr m \<and>
         truthy m \<and> resolve_color env reg theme key st = Inr (put st key m))) \<and>
   (name_for reg (Str (to_string (get st key) @ ''px'')) = Some n \<and> n \<noteq> [] \<and>
      matching (inherited env) theme n \<noteq> [] \<longrightarrow>
    (\<exists>m. member (inherited env) theme (last (matching (inherited env) theme n)) n = Inr m \<and>
         truthy m \<and> resolve_length_variable env reg theme key st = Inr (put st key m)))"
  using assms(2)
  by (simp add: findNestedObj_matching resolve_color_matched resolve_length_variable_matched)

theorem substituted_value_from_last_match_witness:
  "no_toJSON (inherited example_env) shadow_theme \<and>
   readable (inherited example_env) shadow_theme ''name'' \<and>
   ''color'' \<in> colorAttributes example_env \<and>
   name_for (registry_of ''$name'') (get [(''color'', Str ''#00000100'')] ''color'') = Some ''name'' \<and>
   matching (inherited example_env) shadow_theme ''name'' \<noteq> [] \<and>
   last (matching (inherited example_env) shadow_theme ''name'') =
     Part (Fun ''elevation'' 1 ''level => shadow'') \<and>
   member (inherited example_env) shadow_theme (Part (Fun ''elevation'' 1 ''level => shadow''))
     ''name'' = Inr (Str ''elevation'') \<and>
   resolve_color example_env (registry_of ''$name'') shadow_theme ''color''
     [(''color'', Str ''#00000100'')] = Inr [(''color'', Str ''elevation'')]"
  using substituted_value_from_last_match
    [where env = example_env and theme = shadow_theme and key = "''color''"
       and reg = "registry_of ''$name''" and st = "[(''color'', Str ''#00000100'')]"
       and n = "''name''"]
  by (simp add: example_env_def name_for_def get_def registry_of_name matching_shadow_name
      no_toJSON_shadow readable_shadow_name member_def js_get_def)

theorem placeholder_value_from_second_mapping:
  "matching standard_inherited example_theme ''a'' =
     [Part (Obj [(''a'', PStr ''1px'')]), Part (Obj [(''a'', PStr ''red'')])] \<and>
   findNestedObj standard_inherited example_theme ''a'' =
     Inr (Some (Part (Obj [(''a'', PStr ''red'')]))) \<and>
   fst (resolveColorVariablePlaceholder ''$a'' None initial_registry) = ''#00000100'' \<and>
   resolveThemeVariables example_env (registry_of ''$a'') [(''color'', Str ''#00000100'')]
     example_theme example_dims () = Inr [(''color'', Str ''red'')]"
  by (simp add: resolver_eval registry_of_name registry_of_placeholder findNestedObj_matching
      readable_example_a matching_example_a member_def js_get_def example_theme_props)

section \<open>Undefined variables\<close>



lemma get_map_of: "map_of st k = Some v \<Longrightarrow> get st k = v"
  by (simp add: get_def)













section \<open>The test on the four margins\<close>

lemma to_int32_0: "to_int32 (Fin False 0 0) = 0"
  by simp

lemma to_int32_1: "to_int32 (Fin False (Suc 0) 0) = 1"
  by simp

lemma to_int32_2: "to_int32 (Fin False (Suc 0) 1) = 2"
  by simp

lemma to_int32_4: "to_int32 (Fin False (Suc 0) 2) = 4"
  by simp

lemma bitand_1_2: "js_bitand (Fin False (Suc 0) 0) (Fin False (Suc 0) 1) = Fin False 0 0"
  by (simp add: js_bitand_def to_int32_1 to_int32_2 num_eval del: to_int32.simps)

lemma bitand_0_4: "js_bitand (Fin False 0 0) (Fin False (Suc 0) 2) = Fin False 0 0"
  by (simp add: js_bitand_def to_int32_0 to_int32_4 num_eval del: to_int32.simps)

lemma of_nat_num_values:
  "of_nat_num (Suc 0) = Fin False (Suc 0) 0" "of_nat_num 2 = Fin False (Suc 0) 1"
  "of_nat_num 4 = Fin False (Suc 0) 2" "of_nat_num 50 = Fin False 25 1"
  "of_nat_num 60 = Fin False 15 2"
  by (simp_all add: num_eval)

lemma margins_test_1_1_2_4:
  "\<not> margins_test
       [(''width'', Num (of_nat_num 50)), (''height'', Num (of_nat_num 60)),
        (''marginLeft'', Num (of_nat_num 1)), (''marginRight'', Num (of_nat_num 1)),
        (''marginTop'', Num (of_nat_num 2)), (''marginBottom'', Num (of_nat_num 4))]"
  by (simp add: margins_test_def or_undefined_def get_def of_nat_num_values bitand_1_2
      bitand_0_4)

lemma resolve_keys_numbers:
  "resolve_keys example_env initial_registry example_theme example_dims ()
     [''width'', ''height'', ''marginLeft'', ''marginRight'', ''marginTop'', ''marginBottom'']
     [(''width'', Num (of_nat_num 50)), (''height'', Num (of_nat_num 60)),
      (''marginLeft'', Num (of_nat_num 1)), (''marginRight'', Num (of_nat_num 1)),
      (''marginTop'', Num (of_nat_num 2)), (''marginBottom'', Num (of_nat_num 4))]
   = Inr [(''width'', Num (of_nat_num 50)), (''height'', Num (of_nat_num 60)),
          (''marginLeft'', Num (of_nat_num 1)), (''marginRight'', Num (of_nat_num 1)),
          (''marginTop'', Num (of_nat_num 2)), (''marginBottom'', Num (of_nat_num 4))]"
  by (simp add: resolve_key_def expand_elevation_def filter_cursor_def resolve_color_def
      resolve_length_def resolve_length_variable_def convert_expression_def convert_length_def
      name_for_def get_def example_env_def initial_registry_def resolveLengthUnit_Num
      starts_with_def of_nat_num_values string_of_50 string_of_60 string_of_1 string_of_2
      string_of_4)


text \<open>
  C1. Width and height should be recomputed exactly when the four margins are all
  truthy after the pass over the properties. The code tests
  \<open>marginLeft && marginRight & marginTop & marginBottom\<close>, whose last three operands are
  combined bit by bit: with the margins 1, 1, 2 and 4, all truthy, the test fails and
  the style comes back with its width and height as they were.
\<close>

theorem margins_bitwise_test:
  "truthy (Num (of_nat_num 1)) \<and> truthy (Num (of_nat_num 2)) \<and> truthy (Num (of_nat_num 4)) \<and>
   \<not> margins_test
       [(''width'', Num (of_nat_num 50)), (''height'', Num (of_nat_num 60)),
        (''marginLeft'', Num (of_nat_num 1)), (''marginRight'', Num (of_nat_num 1)),
        (''marginTop'', Num (of_nat_num 2)), (''marginBottom'', Num (of_nat_num 4))] \<and>
   resolveThemeVariables example_env initial_registry
     [(''width'', Num (of_nat_num 50)), (''height'', Num (of_nat_num 60)),
      (''marginLeft'', Num (of_nat_num 1)), (''marginRight'', Num (of_nat_num 1)),
      (''marginTop'', Num (of_nat_num 2)), (''marginBottom'', Num (of_nat_num 4))]
     example_theme example_dims ()
   = Inr [(''width'', Num (of_nat_num 50)), (''height'', Num (of_nat_num 60)),
          (''marginLeft'', Num (of_nat_num 1)), (''marginRight'', Num (of_nat_num 1)),
          (''marginTop'', Num (of_nat_num 2)), (''marginBottom'', Num (of_nat_num 4))]"
proof -
  have "truthy (Num (of_nat_num 1)) \<and> truthy (Num (of_nat_num 2)) \<and> truthy (Num (of_nat_num 4))"
    by (simp add: of_nat_num_values)
  moreover note margins_test_1_1_2_4
  moreover have "resolveThemeVariables example_env initial_registry
     [(''width'', Num (of_nat_num 50)), (''height'', Num (of_nat_num 60)),
      (''marginLeft'', Num (of_nat_num 1)), (''marginRight'', Num (of_nat_num 1)),
      (''marginTop'', Num (of_nat_num 2)), (''marginBottom'', Num (of_nat_num 4))]
     example_theme example_dims ()
   = Inr [(''width'', Num (of_nat_num 50)), (''height'', Num (of_nat_num 60)),
          (''marginLeft'', Num (of_nat_num 1)), (''marginRight'', Num (of_nat_num 1)),
          (''marginTop'', Num (of_nat_num 2)), (''marginBottom'', Num (of_nat_num 4))]"
    unfolding resolveThemeVariables_def
    using margins_test_1_1_2_4 resolve_keys_numbers by simp
  ultimately show ?thesis by blast
qed

section \<open>The placeholder registry: one placeholder for a name, one name for a placeholder\<close>

lemma hex_value_snoc: "hex_value (s @ [c]) = 16 * hex_value s + radix_digit c"
  by (simp add: hex_value_def)

lemma hex_value_zeros: "hex_value (replicate k CHR ''0'' @ s) = hex_value s"
proof -
  have "foldl (\<lambda>a c. 16 * a + radix_digit c) 0 (replicate k CHR ''0'') = 0"
    by (induction k) (simp_all add: radix_digit_def)
  then show ?thesis
    by (simp add: hex_value_def)
qed

lemma upper_hex_digit: "d < 16 \<Longrightarrow> radix_digit (upper_char (''0123456789abcdef'' ! d)) = d"
proof -
  assume d: "d < 16"
  have u: "[0..<16] = [0, 1, 2, 3, 4, 5, 6, 7, 8, 9, 10, 11, 12, 13, 14, 15 :: nat]"
    by (simp add: upt_rec)
  have "list_all (\<lambda>d. radix_digit (upper_char (''0123456789abcdef'' ! d)) = d) [0..<16]"
    unfolding u by (simp add: radix_digit_def upper_char_def)
  then have "\<forall>d \<in> set [0..<16]. radix_digit (upper_char (''0123456789abcdef'' ! d)) = d"
    by (simp only: list_all_iff)
  with d show ?thesis by simp
qed

lemma hex_value_hex_digits: "hex_value (to_upper (hex_digits n)) = n"
proof (induction n rule: hex_digits.induct)
  case (1 n)
  show ?case
  proof (cases "n = 0")
    case True
    then show ?thesis by (simp add: hex_digits.simps to_upper_def hex_value_def)
  next
    case False
    then have "hex_digits n = hex_digits (n div 16) @ [''0123456789abcdef'' ! (n mod 16)]"
      by (subst hex_digits.simps) simp
    then have "hex_value (to_upper (hex_digits n))
        = 16 * hex_value (to_upper (hex_digits (n div 16)))
          + radix_digit (upper_char (''0123456789abcdef'' ! (n mod 16)))"
      by (simp add: to_upper_def hex_value_snoc)
    also have "\<dots> = 16 * (n div 16) + n mod 16"
      using 1 [OF False] by (simp add: upper_hex_digit)
    also have "\<dots> = n" by simp
    finally show ?thesis .
  qed
qed

lemma hex_value_to_hex: "hex_value (to_upper (to_hex n)) = n"
proof (cases "n = 0")
  case True
  then show ?thesis
    by (simp add: to_hex_def to_upper_def upper_char_def hex_value_def radix_digit_def)
next
  case False
  then show ?thesis
    by (simp add: to_hex_def hex_value_hex_digits)
qed

lemma hex_value_padded: "hex_value (to_upper (pad_start 6 CHR ''0'' (to_hex n))) = n"
proof -
  have "to_upper (pad_start 6 CHR ''0'' (to_hex n))
      = replicate (6 - length (to_hex n)) CHR ''0'' @ to_upper (to_hex n)"
    by (simp add: pad_start_def to_upper_def upper_char_def)
  then show ?thesis
    by (simp add: hex_value_zeros hex_value_to_hex)
qed

lemma color_hash_inj: "color_hash m = color_hash n \<Longrightarrow> m = n"
proof -
  assume "color_hash m = color_hash n"
  then have "to_upper (pad_start 6 CHR ''0'' (to_hex m)) = to_upper (pad_start 6 CHR ''0'' (to_hex n))"
    by (simp add: color_hash_def)
  then have "hex_value (to_upper (pad_start 6 CHR ''0'' (to_hex m)))
      = hex_value (to_upper (pad_start 6 CHR ''0'' (to_hex n)))"
    by simp
  then show ?thesis
    by (simp add: hex_value_padded)
qed

lemma perform_bound:
  "hexForVarName r (name_of c) = Some h \<Longrightarrow>
   perform hashGenerate c r = (with_fallback (fallback_of c) h, r)"
  by (cases c) (simp_all add: resolveColorVariablePlaceholder_def resolverLengsVariables_def
      lookup_hex_def)

lemma perform_binds:
  "\<exists>h. hexForVarName (snd (perform hashGenerate c r)) (name_of c) = Some h \<and>
       fst (perform hashGenerate c r) = with_fallback (fallback_of c) h"
  by (cases c) (auto simp: resolveColorVariablePlaceholder_def resolverLengsVariables_def
      lookup_hex_def Let_def)

lemma perform_keeps:
  "hexForVarName r v = Some h \<Longrightarrow> hexForVarName (snd (perform hashGenerate c r)) v = Some h"
  by (cases c) (auto simp: resolveColorVariablePlaceholder_def resolverLengsVariables_def Let_def)

lemma run_keeps:
  "hexForVarName r v = Some h \<Longrightarrow> hexForVarName (run hashGenerate cs r) v = Some h"
  by (induction cs arbitrary: r) (simp_all add: perform_keeps)

lemma registry_inv_initial: "registry_inv hashGenerate initial_registry"
  by (simp add: registry_inv_def initial_registry_def)

lemma registry_inv_color:
  assumes f: "(\<forall>i n. hashGenerate i \<noteq> color_hash n) \<or> hashCalls r = 0"
    and i: "registry_inv hashGenerate r"
  shows "registry_inv hashGenerate (snd (resolveColorVariablePlaceholder v fb r))"
proof (cases "hexForVarName r v")
  case (Some h)
  with i show ?thesis
    by (simp add: resolveColorVariablePlaceholder_def)
next
  case None
  define r' where "r' = snd (resolveColorVariablePlaceholder v fb r)"
  have m: "hexForVarName r' = (hexForVarName r)(v \<mapsto> color_hash (currentColorId r))"
    and c: "currentColorId r' = Suc (currentColorId r)"
    and g: "hashCalls r' = hashCalls r"
    using None by (simp_all add: r'_def resolveColorVariablePlaceholder_def Let_def)
  from i have pos: "0 < currentColorId r"
    by (simp add: registry_inv_def)
  have new: "h \<noteq> color_hash (currentColorId r)" if "hexForVarName r w = Some h" for w h
  proof -
    from i that have "(\<exists>n. 0 < n \<and> n < currentColorId r \<and> h = color_hash n) \<or>
        (\<exists>i < hashCalls r. h = hashGenerate i)"
      by (auto simp: registry_inv_def)
    then show ?thesis
    proof
      assume "\<exists>n. 0 < n \<and> n < currentColorId r \<and> h = color_hash n"
      then show ?thesis using color_hash_inj by auto
    next
      assume "\<exists>i < hashCalls r. h = hashGenerate i"
      with f show ?thesis by auto
    qed
  qed
  have origin: "(\<exists>n. 0 < n \<and> n < currentColorId r' \<and> h = color_hash n) \<or>
      (\<exists>i < hashCalls r'. h = hashGenerate i)"
    if "hexForVarName r' w = Some h" for w h
  proof (cases "w = v")
    case True
    with that m have "h = color_hash (currentColorId r)" by simp
    with c pos show ?thesis by auto
  next
    case False
    with that m have "hexForVarName r w = Some h" by simp
    with i have "(\<exists>n. 0 < n \<and> n < currentColorId r \<and> h = color_hash n) \<or>
        (\<exists>i < hashCalls r. h = hashGenerate i)"
      by (auto simp: registry_inv_def)
    with c g show ?thesis by (auto intro: less_SucI)
  qed
  have inj: "w = w'" if "hexForVarName r' w = Some h" "hexForVarName r' w' = Some h" for w w' h
  proof (cases "w = v"; cases "w' = v")
    assume "w = v" "w' = v"
    then show ?thesis by simp
  next
    assume a: "w = v" "w' \<noteq> v"
    with that m have "h = color_hash (currentColorId r)" "hexForVarName r w' = Some h" by simp_all
    with new show ?thesis by blast
  next
    assume a: "w \<noteq> v" "w' = v"
    with that m have "h = color_hash (currentColorId r)" "hexForVarName r w = Some h" by simp_all
    with new show ?thesis by blast
  next
    assume "w \<noteq> v" "w' \<noteq> v"
    with that m have "hexForVarName r w = Some h" "hexForVarName r w' = Some h" by simp_all
    with i show ?thesis by (auto simp: registry_inv_def)
  qed
  from pos c have "0 < currentColorId r'" by simp
  with origin inj show ?thesis
    unfolding registry_inv_def r'_def [symmetric] by blast
qed

lemma registry_inv_length:
  assumes u: "unique_tokens hashGenerate"
    and f: "(\<forall>i n. hashGenerate i \<noteq> color_hash n) \<or> currentColorId r = Suc 0"
    and i: "registry_inv hashGenerate r"
  shows "registry_inv hashGenerate (snd (resolverLengsVariables hashGenerate v fb r))"
proof (cases "hexForVarName r v")
  case (Some h)
  with i show ?thesis
    by (simp add: resolverLengsVariables_def)
next
  case None
  define r' where "r' = snd (resolverLengsVariables hashGenerate v fb r)"
  have m: "hexForVarName r' = (hexForVarName r)(v \<mapsto> hashGenerate (hashCalls r))"
    and c: "currentColorId r' = currentColorId r"
    and g: "hashCalls r' = Suc (hashCalls r)"
    using None by (simp_all add: r'_def resolverLengsVariables_def Let_def)
  from i have pos: "0 < currentColorId r"
    by (simp add: registry_inv_def)
  have new: "h \<noteq> hashGenerate (hashCalls r)" if "hexForVarName r w = Some h" for w h
  proof -
    from i that have "(\<exists>n. 0 < n \<and> n < currentColorId r \<and> h = color_hash n) \<or>
        (\<exists>i < hashCalls r. h = hashGenerate i)"
      by (auto simp: registry_inv_def)
    then show ?thesis
    proof
      assume "\<exists>n. 0 < n \<and> n < currentColorId r \<and> h = color_hash n"
      then obtain n where n: "0 < n" "n < currentColorId r" "h = color_hash n" by blast
      from f show ?thesis
      proof
        assume "\<forall>i n. hashGenerate i \<noteq> color_hash n"
        with n(3) show ?thesis by metis
      next
        assume "currentColorId r = Suc 0"
        with n(1,2) show ?thesis by simp
      qed
    next
      assume "\<exists>i < hashCalls r. h = hashGenerate i"
      with u show ?thesis by (auto simp: unique_tokens_def dest: injD)
    qed
  qed
  have origin: "(\<exists>n. 0 < n \<and> n < currentColorId r' \<and> h = color_hash n) \<or>
      (\<exists>i < hashCalls r'. h = hashGenerate i)"
    if "hexForVarName r' w = Some h" for w h
  proof (cases "w = v")
    case True
    with that m have "h = hashGenerate (hashCalls r)" by simp
    with g show ?thesis by auto
  next
    case False
    with that m have "hexForVarName r w = Some h" by simp
    with i have "(\<exists>n. 0 < n \<and> n < currentColorId r \<and> h = color_hash n) \<or>
        (\<exists>i < hashCalls r. h = hashGenerate i)"
      by (auto simp: registry_inv_def)
    with c g show ?thesis by (auto intro: less_SucI)
  qed
  have inj: "w = w'" if "hexForVarName r' w = Some h" "hexForVarName r' w' = Some h" for w w' h
  proof (cases "w = v"; cases "w' = v")
    assume "w = v" "w' = v"
    then show ?thesis by simp
  next
    assume a: "w = v" "w' \<noteq> v"
    with that m have "h = hashGenerate (hashCalls r)" "hexForVarName r w' = Some h" by simp_all
    with new show ?thesis by blast
  next
    assume a: "w \<noteq> v" "w' = v"
    with that m have "h = hashGenerate (hashCalls r)" "hexForVarName r w = Some h" by simp_all
    with new show ?thesis by blast
  next
    assume "w \<noteq> v" "w' \<noteq> v"
    with that m have "hexForVarName r w = Some h" "hexForVarName r w' = Some h" by simp_all
    with i show ?thesis by (auto simp: registry_inv_def)
  qed
  from pos c have "0 < currentColorId r'" by simp
  with origin inj show ?thesis
    unfolding registry_inv_def r'_def [symmetric] by blast
qed

lemma color_keeps_calls:
  "hashCalls (snd (resolveColorVariablePlaceholder v fb r)) = hashCalls r"
  by (simp add: resolveColorVariablePlaceholder_def Let_def)

lemma length_keeps_counter:
  "currentColorId (snd (resolverLengsVariables hashGenerate v fb r)) = currentColorId r"
  by (simp add: resolverLengsVariables_def Let_def)

lemma registry_inv_run_fresh:
  "fresh_tokens hashGenerate \<Longrightarrow> registry_inv hashGenerate r \<Longrightarrow>
   registry_inv hashGenerate (run hashGenerate cs r)"
proof (induction cs arbitrary: r)
  case Nil
  then show ?case by simp
next
  case (Cons c cs)
  from Cons.prems have "registry_inv hashGenerate (snd (perform hashGenerate c r))"
    by (cases c) (simp_all add: registry_inv_color registry_inv_length fresh_tokens_def)
  with Cons.IH Cons.prems(1) show ?case by simp
qed

lemma registry_inv_run_color:
  "list_all is_color cs \<Longrightarrow> hashCalls r = 0 \<Longrightarrow> registry_inv hashGenerate r \<Longrightarrow>
   registry_inv hashGenerate (run hashGenerate cs r)"
proof (induction cs arbitrary: r)
  case Nil
  then show ?case by simp
next
  case (Cons c cs)
  from Cons.prems(1) obtain v fb where c: "c = ColorCall v fb"
    by (cases c) simp_all
  from Cons.prems have "registry_inv hashGenerate (snd (perform hashGenerate c r))"
    by (simp add: c registry_inv_color)
  moreover from Cons.prems(2) have "hashCalls (snd (perform hashGenerate c r)) = 0"
    by (simp add: c color_keeps_calls)
  moreover from Cons.prems(1) have "list_all is_color cs" by simp
  ultimately show ?case using Cons.IH by simp
qed

lemma registry_inv_run_length:
  "unique_tokens hashGenerate \<Longrightarrow> list_all (\<lambda>c. \<not> is_color c) cs \<Longrightarrow>
   currentColorId r = Suc 0 \<Longrightarrow> registry_inv hashGenerate r \<Longrightarrow>
   registry_inv hashGenerate (run hashGenerate cs r)"
proof (induction cs arbitrary: r)
  case Nil
  then show ?case by simp
next
  case (Cons c cs)
  from Cons.prems(2) obtain v fb where c: "c = LengthCall v fb"
    by (cases c) simp_all
  from Cons.prems have "registry_inv hashGenerate (snd (perform hashGenerate c r))"
    by (simp add: c registry_inv_length)
  moreover from Cons.prems(3) have "currentColorId (snd (perform hashGenerate c r)) = Suc 0"
    by (simp add: c length_keeps_counter)
  moreover from Cons.prems(2) have "list_all (\<lambda>c. \<not> is_color c) cs" by simp
  ultimately show ?case using Cons.IH Cons.prems(1) by simp
qed

lemma registry_inv_admissible:
  assumes "admissible hashGenerate cs"
  shows "registry_inv hashGenerate (run hashGenerate cs initial_registry)"
proof -
  have i: "registry_inv hashGenerate initial_registry"
    by (rule registry_inv_initial)
  have c: "hashCalls initial_registry = 0" "currentColorId initial_registry = Suc 0"
    by (simp_all add: initial_registry_def)
  from assms consider "list_all is_color cs"
    | "unique_tokens hashGenerate" "list_all (\<lambda>c. \<not> is_color c) cs"
    | "fresh_tokens hashGenerate"
    unfolding admissible_def by blast
  then show ?thesis
  proof cases
    case 1
    with i c show ?thesis by (intro registry_inv_run_color)
  next
    case 2
    with i c show ?thesis by (intro registry_inv_run_length)
  next
    case 3
    with i show ?thesis by (intro registry_inv_run_fresh)
  qed
qed

lemma run_append: "run hashGenerate (xs @ ys) r = run hashGenerate ys (run hashGenerate xs r)"
  by (induction xs arbitrary: r) simp_all

lemma with_fallback_cases:
  "with_fallback (fallback_of c) h = (if has_fallback c then h @ '' '' @ h else h)"
  by (simp add: with_fallback_def has_fallback_def split: option.splits)

lemma with_fallback_inj:
  assumes "has_fallback c = has_fallback d"
    and "with_fallback (fallback_of c) h = with_fallback (fallback_of d) h'"
  shows "h = h'"
proof (cases "has_fallback d")
  case False
  with assms show ?thesis by (simp add: with_fallback_cases)
next
  case True
  with assms have a: "h @ '' '' @ h = h' @ '' '' @ h'"
    by (simp add: with_fallback_cases)
  then have "length (h @ '' '' @ h) = length (h' @ '' '' @ h')"
    by (rule arg_cong)
  then have "length h = length h'" by simp
  with a show ?thesis by simp
qed

lemma returns_differ:
  assumes a: "admissible hashGenerate (before @ c # between @ [d])"
    and n: "name_of c \<noteq> name_of d"
    and f: "has_fallback c = has_fallback d"
  shows "fst (perform hashGenerate c (run hashGenerate before initial_registry)) \<noteq>
     fst (perform hashGenerate d
            (run hashGenerate between
               (snd (perform hashGenerate c (run hashGenerate before initial_registry)))))"
proof -
  define r1 where "r1 = run hashGenerate before initial_registry"
  define r2 where "r2 = run hashGenerate between (snd (perform hashGenerate c r1))"
  define r3 where "r3 = snd (perform hashGenerate d r2)"
  have "r3 = run hashGenerate (before @ c # between @ [d]) initial_registry"
    by (simp add: run_append r1_def r2_def r3_def)
  with a have inv: "registry_inv hashGenerate r3"
    by (simp add: registry_inv_admissible)
  obtain h where h: "hexForVarName (snd (perform hashGenerate c r1)) (name_of c) = Some h"
    and p: "fst (perform hashGenerate c r1) = with_fallback (fallback_of c) h"
    using perform_binds [of hashGenerate c r1] by blast
  obtain h' where h': "hexForVarName r3 (name_of d) = Some h'"
    and p': "fst (perform hashGenerate d r2) = with_fallback (fallback_of d) h'"
    using perform_binds [of hashGenerate d r2] unfolding r3_def by blast
  from h have "hexForVarName r2 (name_of c) = Some h"
    unfolding r2_def by (rule run_keeps)
  then have "hexForVarName r3 (name_of c) = Some h"
    unfolding r3_def by (rule perform_keeps)
  with h' inv n have "h \<noteq> h'"
    unfolding registry_inv_def by blast
  with p p' f have "fst (perform hashGenerate c r1) \<noteq> fst (perform hashGenerate d r2)"
    using with_fallback_inj [of c d h h'] by auto
  then show ?thesis
    by (simp add: r1_def r2_def)
qed

lemma fresh_tokens_example: "fresh_tokens (\<lambda>i. replicate (Suc i) CHR ''x'')"
proof -
  have "inj (\<lambda>i. replicate (Suc i) CHR ''x'')"
  proof (rule injI)
    fix i j :: nat
    assume "replicate (Suc i) CHR ''x'' = replicate (Suc j) CHR ''x''"
    then have "length (replicate (Suc i) CHR ''x'') = length (replicate (Suc j) CHR ''x'')"
      by (rule arg_cong)
    then show "i = j" by simp
  qed
  then show ?thesis
    by (simp add: fresh_tokens_def unique_tokens_def color_hash_def)
qed

lemma unique_colliding_tokens: "unique_tokens colliding_tokens"
  unfolding unique_tokens_def
proof (rule injI)
  fix i j :: nat
  assume "colliding_tokens i = colliding_tokens j"
  then have "Suc i = Suc j"
    unfolding colliding_tokens_def by (rule color_hash_inj)
  then show "i = j" by simp
qed

text \<open>
  C7. A call of an encoder for a variable name returns the same placeholder when it is
  repeated, at once or after any other calls of either encoder, and the first repetition
  leaves the registry as it is. Two calls for distinct variable names, both with or both
  without a fallback, anywhere in a sequence of calls that starts from the empty registry,
  return distinct placeholders, and no two names are bound to the same placeholder,
  provided that the sequence is one of these: calls of the color encoder only, whose
  placeholders are distinct because the counter only advances and its hexadecimal
  writing determines it; calls of the generic encoder only, with a token generator that
  never returns the same string twice; calls of both, with such a generator that
  moreover never returns a color placeholder. The last proviso is needed: with a
  generator of unique strings whose first is \<open>#00000100\<close>, a length variable and then a
  color variable receive that same placeholder.
\<close>

theorem placeholders_idempotent_injective:
  "perform hashGenerate c (snd (perform hashGenerate c r)) =
     (fst (perform hashGenerate c r), snd (perform hashGenerate c r)) \<and>
   fst (perform hashGenerate c (run hashGenerate later (snd (perform hashGenerate c r)))) =
     fst (perform hashGenerate c r) \<and>
   (admissible hashGenerate (before @ c # between @ [d]) \<and> name_of c \<noteq> name_of d \<and>
      has_fallback c = has_fallback d \<longrightarrow>
    fst (perform hashGenerate c (run hashGenerate before initial_registry)) \<noteq>
    fst (perform hashGenerate d
           (run hashGenerate between
              (snd (perform hashGenerate c (run hashGenerate before initial_registry)))))) \<and>
   (admissible hashGenerate calls \<longrightarrow>
      (\<forall>v w h. hexForVarName (run hashGenerate calls initial_registry) v = Some h \<and>
               hexForVarName (run hashGenerate calls initial_registry) w = Some h \<longrightarrow> v = w))"
proof (intro conjI impI)
  obtain h where h: "hexForVarName (snd (perform hashGenerate c r)) (name_of c) = Some h"
    and p: "fst (perform hashGenerate c r) = with_fallback (fallback_of c) h"
    using perform_binds [of hashGenerate c r] by blast
  from h p show "perform hashGenerate c (snd (perform hashGenerate c r)) =
     (fst (perform hashGenerate c r), snd (perform hashGenerate c r))"
    by (simp add: perform_bound)
  from h have "hexForVarName (run hashGenerate later (snd (perform hashGenerate c r))) (name_of c)
      = Some h"
    by (rule run_keeps)
  with p show "fst (perform hashGenerate c (run hashGenerate later (snd (perform hashGenerate c r))))
      = fst (perform hashGenerate c r)"
    by (simp add: perform_bound)
next
  assume "admissible hashGenerate (before @ c # between @ [d]) \<and> name_of c \<noteq> name_of d \<and>
      has_fallback c = has_fallback d"
  then show "fst (perform hashGenerate c (run hashGenerate before initial_registry)) \<noteq>
    fst (perform hashGenerate d
           (run hashGenerate between
              (snd (perform hashGenerate c (run hashGenerate before initial_registry)))))"
    by (intro returns_differ) simp_all
next
  assume "admissible hashGenerate calls"
  then have "registry_inv hashGenerate (run hashGenerate calls initial_registry)"
    by (rule registry_inv_admissible)
  then show "\<forall>v w h. hexForVarName (run hashGenerate calls initial_registry) v = Some h \<and>
               hexForVarName (run hashGenerate calls initial_registry) w = Some h \<longrightarrow> v = w"
    unfolding registry_inv_def by blast
qed

theorem placeholders_idempotent_injective_witness:
  "admissible (\<lambda>i. replicate (Suc i) CHR ''x'') [ColorCall ''$a'' None, LengthCall ''$w'' None] \<and>
   name_of (ColorCall ''$a'' None) \<noteq> name_of (LengthCall ''$w'' None) \<and>
   has_fallback (ColorCall ''$a'' None) = has_fallback (LengthCall ''$w'' None) \<and>
   fst (perform (\<lambda>i. replicate (Suc i) CHR ''x'') (ColorCall ''$a'' None) initial_registry)
     = ''#00000100'' \<and>
   fst (perform (\<lambda>i. replicate (Suc i) CHR ''x'') (LengthCall ''$w'' None)
          (snd (perform (\<lambda>i. replicate (Suc i) CHR ''x'') (ColorCall ''$a'' None)
                  initial_registry)))
     = ''x'' \<and>
   fst (perform (\<lambda>i. replicate (Suc i) CHR ''x'') (ColorCall ''$a'' None)
          (run (\<lambda>i. replicate (Suc i) CHR ''x'') [LengthCall ''$w'' None]
             (snd (perform (\<lambda>i. replicate (Suc i) CHR ''x'') (ColorCall ''$a'' None)
                     initial_registry))))
     = ''#00000100'' \<and>
   hexForVarName
     (run (\<lambda>i. replicate (Suc i) CHR ''x'') [ColorCall ''$a'' None, LengthCall ''$w'' None]
        initial_registry) ''$w'' = Some ''x'' \<and>
   hexForVarName
     (run (\<lambda>i. replicate (Suc i) CHR ''x'') [ColorCall ''$a'' None, LengthCall ''$w'' None]
        initial_registry) ''$a'' \<noteq> Some ''x''"
proof -
  let ?g = "\<lambda>i. replicate (Suc i) CHR ''x''"
  let ?r = "run ?g [ColorCall ''$a'' None, LengthCall ''$w'' None] initial_registry"
  note t = placeholders_idempotent_injective
    [where hashGenerate = ?g and c = "ColorCall ''$a'' None" and r = initial_registry
       and later = "[LengthCall ''$w'' None]" and before = "[]" and between = "[]"
       and d = "LengthCall ''$w'' None"
       and calls = "[ColorCall ''$a'' None, LengthCall ''$w'' None]"]
  have a: "admissible ?g [ColorCall ''$a'' None, LengthCall ''$w'' None]"
    using fresh_tokens_example by (simp add: admissible_def)
  have first: "fst (perform ?g (ColorCall ''$a'' None) initial_registry) = ''#00000100''"
    by (simp add: registry_of_placeholder)
  have second: "fst (perform ?g (LengthCall ''$w'' None)
      (snd (perform ?g (ColorCall ''$a'' None) initial_registry))) = ''x''"
    by (simp add: resolveColorVariablePlaceholder_def resolverLengsVariables_def
        initial_registry_def lookup_hex_def with_fallback_def Let_def)
  have w: "hexForVarName ?r ''$w'' = Some ''x''"
    by (simp add: resolveColorVariablePlaceholder_def resolverLengsVariables_def
        initial_registry_def Let_def)
  from t a w have "hexForVarName ?r ''$a'' \<noteq> Some ''x''"
    by fastforce
  with t a first second w show ?thesis
    by (simp add: has_fallback_def)
qed

theorem unique_tokens_collide:
  "unique_tokens colliding_tokens \<and>
   fst (perform colliding_tokens (LengthCall ''$w'' None) initial_registry) = ''#00000100'' \<and>
   fst (perform colliding_tokens (ColorCall ''$a'' None)
          (snd (perform colliding_tokens (LengthCall ''$w'' None) initial_registry)))
     = ''#00000100''"
  by (simp add: unique_colliding_tokens resolveColorVariablePlaceholder_def
      resolverLengsVariables_def initial_registry_def lookup_hex_def with_fallback_def
      colliding_tokens_def color_hash_1 Let_def)

end
